theory Spec2Isabelle
  imports Main
begin

section \<open>Azure resource provisioning script (script.py)\<close>

text \<open>
  The script is a sequence of calls into the Azure management SDK, wrapped in
  try/except blocks that log. The SDK is outside the program, so it is a
  parameter of the model: a provider answers each call from the history of the
  calls made so far. What the script does is the list of calls it issues, the
  lines it logs and the exception it ends with, if any.
\<close>

subsection \<open>Exceptions\<close>

text \<open>
  \<open>ResourceNotFoundError\<close> and \<open>ResourceExistsError\<close> are subclasses of
  \<open>HttpResponseError\<close> (azure.core.exceptions); every class here derives from
  \<open>Exception\<close>. \<open>OtherError\<close> stands for any other subclass of \<open>Exception\<close>
  the SDK may raise. An exception carries its message: \<open>str(e)\<close> and
  \<open>e.message\<close> both read it.
\<close>

datatype exn_class =
    ResourceNotFoundError | ResourceExistsError | HttpResponseError
  | NameError | ValueError | Exception | OtherError

datatype exn = Exn (cls: exn_class) (message: string)

definition isinstance :: "exn \<Rightarrow> exn_class \<Rightarrow> bool" where
  "isinstance e c =
     (cls e = c \<or> c = Exception \<or>
      (c = HttpResponseError \<and> (cls e = ResourceNotFoundError \<or> cls e = ResourceExistsError)))"

subsection \<open>Provider calls\<close>

datatype entity =
    ResourceGroup string
  | VirtualNetwork string string
  | Subnet string string string
  | PublicIPAddress string string
  | NetworkInterface string string
  | VirtualMachine string string
  | SqlServer string string
  | SqlDatabase string string string
  | StorageAccount string string

type_synonym params = "(string \<times> string) list"

text \<open>
  \<open>CreateOrUpdate\<close> is \<open>create_or_update\<close>, or \<open>begin_create_or_update(...).result()\<close>
  (\<open>begin_create(...).result()\<close> for a storage account): the request and the wait
  for the long-running operation, as one blocking call. \<open>Start\<close>, \<open>PowerOff\<close> and
  \<open>Delete\<close> are \<open>begin_start\<close>, \<open>begin_power_off\<close> and \<open>begin_delete\<close> with their
  \<open>.result()\<close>.
\<close>

datatype call =
    CheckExistence entity
  | CreateOrUpdate entity params
  | Get entity
  | ListVmSizes string
  | Start entity
  | PowerOff entity
  | Delete entity

text \<open>An event is a call with the exception it raised, if it raised one.\<close>

type_synonym event = "call \<times> exn option"

type_synonym resource = string

record provider =
  check_existence :: "event list \<Rightarrow> string \<Rightarrow> exn + bool"
  list_sizes :: "event list \<Rightarrow> string \<Rightarrow> exn + string list"
  invoke :: "event list \<Rightarrow> call \<Rightarrow> exn + resource"

subsection \<open>The world: calls issued, log file, random generator\<close>

datatype level = INFO | WARNING | ERROR

record world =
  trace :: "event list"
  logfile :: "(level \<times> string) list"
  rng :: "nat \<Rightarrow> nat"

definition init_world :: "(nat \<Rightarrow> nat) \<Rightarrow> world" where
  "init_world r = \<lparr>trace = [], logfile = [], rng = r\<rparr>"

type_synonym 'a prog = "world \<Rightarrow> (exn + 'a) \<times> world"

definition ret :: "'a \<Rightarrow> 'a prog" where
  "ret x w = (Inr x, w)"

definition raise :: "exn \<Rightarrow> 'a prog" where
  "raise e w = (Inl e, w)"

definition bind_prog :: "'a prog \<Rightarrow> ('a \<Rightarrow> 'b prog) \<Rightarrow> 'b prog" where
  "bind_prog m f w = (case m w of (Inl e, w') \<Rightarrow> (Inl e, w') | (Inr x, w') \<Rightarrow> f x w')"

definition then_prog :: "'a prog \<Rightarrow> 'b prog \<Rightarrow> 'b prog" where
  "then_prog m k = bind_prog m (\<lambda>_. k)"

text \<open>\<open>try: m except ...: h e\<close>; a handler that does not match re-raises.\<close>

definition try_except :: "'a prog \<Rightarrow> (exn \<Rightarrow> 'a prog) \<Rightarrow> 'a prog" where
  "try_except m h w = (case m w of (Inl e, w') \<Rightarrow> h e w' | (Inr x, w') \<Rightarrow> (Inr x, w'))"

definition logging :: "level \<Rightarrow> string \<Rightarrow> unit prog" where
  "logging l s w = (Inr (), w\<lparr>logfile := logfile w @ [(l, s)]\<rparr>)"

definition outcome :: "exn + 'a \<Rightarrow> exn option" where
  "outcome r = (case r of Inl e \<Rightarrow> Some e | Inr _ \<Rightarrow> None)"

definition issue :: "call \<Rightarrow> (event list \<Rightarrow> exn + 'a) \<Rightarrow> 'a prog" where
  "issue c answer w =
     (let r = answer (trace w) in (r, w\<lparr>trace := trace w @ [(c, outcome r)]\<rparr>))"

definition call_check_existence :: "provider \<Rightarrow> string \<Rightarrow> bool prog" where
  "call_check_existence p name =
     issue (CheckExistence (ResourceGroup name)) (\<lambda>h. check_existence p h name)"

definition call_list_sizes :: "provider \<Rightarrow> string \<Rightarrow> string list prog" where
  "call_list_sizes p location = issue (ListVmSizes location) (\<lambda>h. list_sizes p h location)"

definition call_invoke :: "provider \<Rightarrow> call \<Rightarrow> resource prog" where
  "call_invoke p c = issue c (\<lambda>h. invoke p h c)"

subsection \<open>Module level: imports, subscription id, constants\<close>

text \<open>
  The names bound in the module's namespace: the imports of lines 1 to 20, the
  assignments of lines 27 to 49 and the functions. A name that is neither here
  nor a builtin raises \<open>NameError\<close> when it is evaluated.
\<close>

definition module_names :: "string list" where
  "module_names =
     [''os'', ''logging'', ''DefaultAzureCredential'', ''ResourceManagementClient'',
      ''ComputeManagementClient'', ''SqlManagementClient'', ''StorageManagementClient'',
      ''Server'', ''Database'', ''VirtualMachine'', ''HardwareProfile'', ''StorageProfile'',
      ''OSDisk'', ''ImageReference'', ''OSProfile'', ''NetworkProfile'',
      ''NetworkInterfaceReference'', ''DiskCreateOptionTypes'',
      ''StorageAccountCreateParameters'', ''Sku'', ''Kind'', ''ResourceExistsError'',
      ''ResourceNotFoundError'', ''HttpResponseError'', ''NetworkManagementClient'',
      ''NetworkSecurityGroup'', ''SecurityRule'', ''VirtualNetwork'', ''Subnet'',
      ''PublicIPAddress'', ''NetworkInterface'', ''NetworkInterfaceIPConfiguration'',
      ''random'', ''string'',
      ''credential'', ''subscription_id'', ''resource_client'', ''compute_client'',
      ''sql_client'', ''storage_client'', ''network_client'',
      ''RESOURCE_GROUP_NAME'', ''LOCATION'', ''VM_NAME'', ''STORAGE_ACCOUNT_NAME'',
      ''SQL_SERVER_NAME'', ''SQL_DB_NAME'', ''VNET_NAME'', ''SUBNET_NAME'', ''IP_NAME'',
      ''NIC_NAME'',
      ''create_resource_group'', ''create_virtual_network'', ''create_public_ip'',
      ''create_network_interface'', ''get_available_vm_size'', ''create_virtual_machine'',
      ''generate_unique_name'', ''setup_sql_database'', ''configure_storage_account'',
      ''start_vm'', ''stop_vm'', ''delete_vm'']"

definition apos :: string where
  "apos = [CHR 0x27]"

definition quoted :: "string \<Rightarrow> string" where
  "quoted s = apos @ s @ apos"

text \<open>\<open>time.sleep(secs)\<close>: the name \<open>time\<close> is looked up in the module first.\<close>

definition name_error :: "string \<Rightarrow> exn" where
  "name_error name = Exn NameError (''name '' @ quoted name @ '' is not defined'')"

definition time_sleep :: "nat \<Rightarrow> unit prog" where
  "time_sleep secs =
     (if ''time'' \<in> set module_names then ret () else raise (name_error ''time''))"

text \<open>
  Lines 28 to 31. \<open>os.getenv\<close> gives \<open>None\<close> for a variable that is not set;
  \<open>x or y\<close> is \<open>y\<close> when \<open>x\<close> is \<open>None\<close> or the empty string.
\<close>

definition py_or :: "string option \<Rightarrow> string \<Rightarrow> string" where
  "py_or x y = (case x of None \<Rightarrow> y | Some s \<Rightarrow> if s = [] then y else s)"

definition module_init :: "string option \<Rightarrow> exn + string" where
  "module_init getenv_AZURE_SUBSCRIPTION_ID =
     (let subscription_id = py_or getenv_AZURE_SUBSCRIPTION_ID ''your_subscription_id''
      in if subscription_id = []
         then Inl (Exn ValueError
           ''Azure subscription ID is not set. Please set the AZURE_SUBSCRIPTION_ID environment variable.'')
         else Inr subscription_id)"

definition RESOURCE_GROUP_NAME :: string where "RESOURCE_GROUP_NAME = ''MyResourceGroup''"
definition LOCATION :: string where "LOCATION = ''centralus''"
definition VM_NAME :: string where "VM_NAME = ''MyVM''"
definition STORAGE_ACCOUNT_NAME :: string where "STORAGE_ACCOUNT_NAME = ''mystorageacct''"
definition SQL_SERVER_NAME :: string where "SQL_SERVER_NAME = ''myserver''"
definition SQL_DB_NAME :: string where "SQL_DB_NAME = ''mydatabase''"
definition VNET_NAME :: string where "VNET_NAME = ''MyVNet''"
definition SUBNET_NAME :: string where "SUBNET_NAME = ''MySubnet''"
definition IP_NAME :: string where "IP_NAME = ''MyPublicIP''"
definition NIC_NAME :: string where "NIC_NAME = ''MyVMNIC''"

subsection \<open>create_resource_group\<close>

definition create_resource_group :: "provider \<Rightarrow> unit prog" where
  "create_resource_group p =
     try_except
       (then_prog
          (logging INFO (''Checking if resource group '' @ quoted RESOURCE_GROUP_NAME @ '' exists...''))
          (bind_prog (call_check_existence p RESOURCE_GROUP_NAME) (\<lambda>rg_exists.
             if rg_exists
             then logging INFO (''Resource group '' @ quoted RESOURCE_GROUP_NAME
                    @ '' already exists. Using existing resource group.'')
             else then_prog (logging INFO ''Creating new resource group...'')
                 (bind_prog
                    (call_invoke p (CreateOrUpdate (ResourceGroup RESOURCE_GROUP_NAME)
                       [(''location'', LOCATION)]))
                    (\<lambda>rg_result. logging INFO (''Resource group ''
                       @ quoted RESOURCE_GROUP_NAME @ '' created successfully.''))))))
       (\<lambda>e. then_prog
          (logging ERROR (''Error creating or using resource group: '' @ message e))
          (raise e))"

subsection \<open>create_virtual_network\<close>

definition create_virtual_network :: "provider \<Rightarrow> unit prog" where
  "create_virtual_network p =
     then_prog (logging INFO ''Creating virtual network and subnet...'')
       (try_except
          (bind_prog
             (call_invoke p (CreateOrUpdate (VirtualNetwork RESOURCE_GROUP_NAME VNET_NAME)
                [(''location'', LOCATION), (''address_prefixes'', ''10.0.0.0/16'')]))
             (\<lambda>vnet_result. bind_prog
                (call_invoke p
                   (CreateOrUpdate (Subnet RESOURCE_GROUP_NAME VNET_NAME SUBNET_NAME)
                      [(''address_prefix'', ''10.0.0.0/24'')]))
                (\<lambda>subnet_result. logging INFO (''Virtual network '' @ quoted VNET_NAME
                   @ '' and subnet '' @ quoted SUBNET_NAME @ '' created successfully.''))))
          (\<lambda>e. if isinstance e HttpResponseError
             then then_prog
                (logging ERROR (''Error creating virtual network or subnet: '' @ message e))
                (raise e)
             else then_prog (logging ERROR (''Unexpected error occurred: '' @ message e))
                (raise e)))"

subsection \<open>Verification loops\<close>

text \<open>
  The script has the same loop three times (lines 107 to 116, 221 to 230 and
  262 to 271), for the public IP address, the virtual machine and the SQL
  server:
  \<^verbatim>\<open>
  for _ in range(10):
      try:
          <get the resource>
          logging.info(<found>)
          break
      except ResourceNotFoundError:
          logging.warning(<retrying>)
          time.sleep(5)
  else:
      raise Exception(<could not be verified>)
  \<close>
  It differs in the resource and in the three messages only, which are the
  parameters here; the first argument counts the iterations that are left. The
  body of one iteration yields whether it left the loop by \<open>break\<close>.
\<close>

primrec verify_loop ::
  "nat \<Rightarrow> provider \<Rightarrow> entity \<Rightarrow> string \<Rightarrow> string \<Rightarrow> string \<Rightarrow> unit prog" where
  "verify_loop 0 p ent found retrying failed = raise (Exn Exception failed)"
| "verify_loop (Suc n) p ent found retrying failed =
     bind_prog
       (try_except
          (bind_prog (call_invoke p (Get ent))
             (\<lambda>info. then_prog (logging INFO found) (ret True)))
          (\<lambda>e. if isinstance e ResourceNotFoundError
             then then_prog (logging WARNING retrying) (then_prog (time_sleep 5) (ret False))
             else raise e))
       (\<lambda>break. if break then ret () else verify_loop n p ent found retrying failed)"

subsection \<open>create_public_ip\<close>

definition create_public_ip :: "provider \<Rightarrow> unit prog" where
  "create_public_ip p =
     then_prog (logging INFO ''Creating public IP address...'')
       (try_except
          (bind_prog
             (call_invoke p (CreateOrUpdate (PublicIPAddress RESOURCE_GROUP_NAME IP_NAME)
                [(''location'', LOCATION), (''public_ip_allocation_method'', ''Dynamic'')]))
             (\<lambda>ip_result. then_prog
                (logging INFO (''Public IP address '' @ quoted IP_NAME @ '' creation initiated.''))
                (verify_loop 10 p (PublicIPAddress RESOURCE_GROUP_NAME IP_NAME)
                   (''Public IP address '' @ quoted IP_NAME @ '' has been created successfully.'')
                   (''Public IP address '' @ quoted IP_NAME @ '' not found yet. Retrying...'')
                   (''Public IP address '' @ quoted IP_NAME
                      @ '' could not be verified after creation.''))))
          (\<lambda>e. if isinstance e HttpResponseError
             then then_prog (logging ERROR (''Error creating public IP address: '' @ message e))
                (raise e)
             else then_prog (logging ERROR (''Unexpected error occurred: '' @ message e))
                (raise e)))"

subsection \<open>create_network_interface\<close>

definition create_network_interface :: "provider \<Rightarrow> unit prog" where
  "create_network_interface p =
     then_prog (logging INFO ''Creating network interface...'')
       (try_except
          (bind_prog (call_invoke p (Get (Subnet RESOURCE_GROUP_NAME VNET_NAME SUBNET_NAME)))
             (\<lambda>subnet_info. bind_prog
                (call_invoke p (Get (PublicIPAddress RESOURCE_GROUP_NAME IP_NAME)))
                (\<lambda>ip_info. bind_prog
                   (call_invoke p
                      (CreateOrUpdate (NetworkInterface RESOURCE_GROUP_NAME NIC_NAME)
                         [(''location'', LOCATION), (''ip_configurations.name'', NIC_NAME),
                          (''ip_configurations.subnet'', subnet_info),
                          (''ip_configurations.public_ip_address'', ip_info),
                          (''ip_configurations.primary'', ''True'')]))
                   (\<lambda>nic_result. logging INFO
                      (''Network interface '' @ quoted NIC_NAME @ '' created successfully.'')))))
          (\<lambda>e. then_prog (logging ERROR (''Error creating network interface: '' @ message e))
             (raise e)))"

subsection \<open>get_available_vm_size\<close>

text \<open>The names of the listed sizes, in the order the provider lists them.\<close>

definition get_available_vm_size :: "provider \<Rightarrow> string \<Rightarrow> string \<Rightarrow> string option prog" where
  "get_available_vm_size p location preferred_size =
     then_prog
       (logging INFO (''Checking availability of VM size '' @ quoted preferred_size
          @ '' in location '' @ quoted location @ ''...''))
       (bind_prog (call_list_sizes p location) (\<lambda>available_size_names.
          if preferred_size \<in> set available_size_names
          then then_prog
             (logging INFO (''Preferred VM size '' @ quoted preferred_size @ '' is available.''))
             (ret (Some preferred_size))
          else then_prog
             (logging WARNING (''Preferred VM size '' @ quoted preferred_size
                @ '' is not available. Selecting an alternative size.''))
             (ret (case available_size_names of [] \<Rightarrow> None | first # _ \<Rightarrow> Some first))))"

subsection \<open>create_virtual_machine\<close>

text \<open>
  \<open>if not vm_size\<close> holds for \<open>None\<close> and for the empty string. The module's
  \<open>subscription_id\<close> is read for the network interface's id; it is a
  parameter here.
\<close>

definition vm_parameters :: "string \<Rightarrow> string \<Rightarrow> params" where
  "vm_parameters subscription_id vm_size =
     [(''location'', LOCATION),
      (''hardware_profile.vm_size'', vm_size),
      (''storage_profile.image_reference.publisher'', ''Canonical''),
      (''storage_profile.image_reference.offer'', ''UbuntuServer''),
      (''storage_profile.image_reference.sku'', ''18.04-LTS''),
      (''storage_profile.image_reference.version'', ''latest''),
      (''storage_profile.os_disk.create_option'', ''from_image''),
      (''storage_profile.os_disk.name'', VM_NAME @ ''_osdisk''),
      (''os_profile.computer_name'', VM_NAME),
      (''os_profile.admin_username'', ''azureuser''),
      (''os_profile.admin_password'', ''P@ssw0rd1234''),
      (''network_profile.network_interfaces.id'',
         ''/subscriptions/'' @ subscription_id @ ''/resourceGroups/'' @ RESOURCE_GROUP_NAME
           @ ''/providers/Microsoft.Network/networkInterfaces/'' @ NIC_NAME),
      (''network_profile.network_interfaces.primary'', ''True'')]"

definition create_virtual_machine :: "provider \<Rightarrow> string \<Rightarrow> unit prog" where
  "create_virtual_machine p subscription_id =
     try_except
       (then_prog (create_resource_group p)
       (then_prog (create_virtual_network p)
       (then_prog (create_public_ip p)
       (then_prog (create_network_interface p)
       (then_prog (logging INFO ''Deploying virtual machine...'')
       (bind_prog (get_available_vm_size p LOCATION ''Standard_B1s'') (\<lambda>vm_size.
          case (case vm_size of None \<Rightarrow> None | Some s \<Rightarrow> if s = [] then None else Some s) of
            None \<Rightarrow> raise (Exn Exception ''No available VM sizes found in the specified location.'')
          | Some vm_size \<Rightarrow>
              then_prog
                (try_except
                   (bind_prog
                      (call_invoke p
                         (CreateOrUpdate (VirtualMachine RESOURCE_GROUP_NAME VM_NAME)
                            (vm_parameters subscription_id vm_size)))
                      (\<lambda>vm_result. logging INFO (''VM '' @ quoted VM_NAME
                         @ '' deployed successfully with size '' @ quoted vm_size @ ''.'')))
                   (\<lambda>e. if isinstance e ResourceExistsError
                      then then_prog
                         (logging ERROR (''Resource exists error while creating VM: '' @ message e))
                         (raise e)
                      else if isinstance e HttpResponseError
                      then then_prog
                         (logging ERROR
                            (''Failed to deploy VM, retrying due to error: '' @ message e))
                         (raise e)
                      else raise e))
                (verify_loop 10 p (VirtualMachine RESOURCE_GROUP_NAME VM_NAME)
                   (''VM '' @ quoted VM_NAME @ '' has been created successfully.'')
                   (''VM '' @ quoted VM_NAME @ '' not found yet. Retrying...'')
                   (''VM '' @ quoted VM_NAME @ '' could not be verified after creation.'')))))))))
       (\<lambda>e. then_prog (logging ERROR (''Error deploying VM: '' @ message e)) (raise e))"

subsection \<open>generate_unique_name\<close>

text \<open>
  \<open>random.choices(population, k=6)\<close> draws six times, with replacement, an
  index into the population. The generator is a stream of draws; a draw is
  reduced to an index of the population, and the six draws are used up.
\<close>

definition ascii_lowercase :: string where
  "ascii_lowercase = ''abcdefghijklmnopqrstuvwxyz''"

definition digits :: string where
  "digits = ''0123456789''"

definition random_choices :: "string \<Rightarrow> nat \<Rightarrow> (nat \<Rightarrow> nat) \<Rightarrow> string" where
  "random_choices population k draws =
     map (\<lambda>i. population ! (draws i mod length population)) [0..<k]"

definition generate_unique_name :: "string \<Rightarrow> string prog" where
  "generate_unique_name base_name w =
     (let suffix = random_choices (ascii_lowercase @ digits) 6 (rng w)
      in (Inr (base_name @ suffix), w\<lparr>rng := (\<lambda>i. rng w (i + 6))\<rparr>))"

subsection \<open>setup_sql_database\<close>

definition setup_sql_database :: "provider \<Rightarrow> unit prog" where
  "setup_sql_database p =
     try_except
       (then_prog (logging INFO ''Setting up SQL database...'')
       (bind_prog (generate_unique_name SQL_SERVER_NAME) (\<lambda>unique_sql_server_name.
        then_prog
          (logging INFO (''Generated unique SQL Server name: '' @ unique_sql_server_name))
       (bind_prog
          (call_invoke p (CreateOrUpdate (SqlServer RESOURCE_GROUP_NAME unique_sql_server_name)
             [(''location'', LOCATION), (''administrator_login'', ''sqladmin''),
              (''administrator_login_password'', ''P@ssw0rd1234'')]))
          (\<lambda>server_result.
        then_prog
          (logging INFO (''SQL Server '' @ quoted unique_sql_server_name
             @ '' created successfully.''))
       (then_prog
          (verify_loop 10 p (SqlServer RESOURCE_GROUP_NAME unique_sql_server_name)
             (''SQL Server '' @ quoted unique_sql_server_name
                @ '' has been verified successfully.'')
             (''SQL Server '' @ quoted unique_sql_server_name @ '' not found yet. Retrying...'')
             (''SQL Server '' @ quoted unique_sql_server_name
                @ '' could not be verified after creation.''))
       (bind_prog
          (call_invoke p
             (CreateOrUpdate (SqlDatabase RESOURCE_GROUP_NAME unique_sql_server_name SQL_DB_NAME)
                [(''location'', LOCATION)]))
          (\<lambda>db_result. logging INFO
             (''SQL Database '' @ quoted SQL_DB_NAME @ '' setup successfully.'')))))))))
       (\<lambda>e. if isinstance e HttpResponseError
          then then_prog (logging ERROR (''Failed to set up SQL database: '' @ message e))
             (raise e)
          else then_prog (logging ERROR (''Unexpected error occurred: '' @ message e))
             (raise e))"

subsection \<open>configure_storage_account\<close>

definition configure_storage_account :: "provider \<Rightarrow> unit prog" where
  "configure_storage_account p =
     try_except
       (then_prog (logging INFO ''Configuring storage account...'')
       (bind_prog (generate_unique_name STORAGE_ACCOUNT_NAME) (\<lambda>unique_storage_account_name.
        then_prog
          (logging INFO
             (''Generated unique storage account name: '' @ unique_storage_account_name))
       (bind_prog
          (call_invoke p
             (CreateOrUpdate (StorageAccount RESOURCE_GROUP_NAME unique_storage_account_name)
                [(''sku.name'', ''Standard_LRS''), (''kind'', ''StorageV2''),
                 (''location'', LOCATION)]))
          (\<lambda>storage_account_result. logging INFO
             (''Storage account '' @ quoted unique_storage_account_name
                @ '' configured successfully.''))))))
       (\<lambda>e. if isinstance e ResourceExistsError
          then then_prog
             (logging ERROR (''Storage account name already taken: '' @ message e))
             (raise e)
          else then_prog (logging ERROR (''Error configuring storage account: '' @ message e))
             (raise e))"

subsection \<open>start_vm, stop_vm, delete_vm\<close>

definition start_vm :: "provider \<Rightarrow> unit prog" where
  "start_vm p =
     try_except
       (then_prog (logging INFO (''Starting VM '' @ quoted VM_NAME @ ''...''))
       (bind_prog (call_invoke p (Start (VirtualMachine RESOURCE_GROUP_NAME VM_NAME)))
          (\<lambda>_. logging INFO (''VM '' @ quoted VM_NAME @ '' started successfully.''))))
       (\<lambda>e. if isinstance e ResourceNotFoundError
          then logging ERROR (''VM not found: '' @ message e)
          else then_prog (logging ERROR (''Error starting VM: '' @ message e)) (raise e))"

definition stop_vm :: "provider \<Rightarrow> unit prog" where
  "stop_vm p =
     try_except
       (then_prog (logging INFO (''Stopping VM '' @ quoted VM_NAME @ ''...''))
       (bind_prog (call_invoke p (PowerOff (VirtualMachine RESOURCE_GROUP_NAME VM_NAME)))
          (\<lambda>_. logging INFO (''VM '' @ quoted VM_NAME @ '' stopped successfully.''))))
       (\<lambda>e. if isinstance e ResourceNotFoundError
          then logging ERROR (''VM not found: '' @ message e)
          else then_prog (logging ERROR (''Error stopping VM: '' @ message e)) (raise e))"

definition delete_vm :: "provider \<Rightarrow> unit prog" where
  "delete_vm p =
     try_except
       (then_prog (logging INFO (''Deleting VM '' @ quoted VM_NAME @ ''...''))
       (bind_prog (call_invoke p (Delete (VirtualMachine RESOURCE_GROUP_NAME VM_NAME)))
          (\<lambda>_. logging INFO (''VM '' @ quoted VM_NAME @ '' deleted successfully.''))))
       (\<lambda>e. if isinstance e ResourceNotFoundError
          then logging ERROR (''VM not found: '' @ message e)
          else then_prog (logging ERROR (''Error deleting VM: '' @ message e)) (raise e))"

subsection \<open>The script run as a program\<close>

text \<open>Lines 348 to 352, and before them the module's own statements.\<close>

definition main :: "provider \<Rightarrow> string \<Rightarrow> unit prog" where
  "main p subscription_id =
     then_prog (create_resource_group p)
       (then_prog (create_virtual_machine p subscription_id)
          (then_prog (setup_sql_database p) (configure_storage_account p)))"

definition script :: "string option \<Rightarrow> provider \<Rightarrow> unit prog" where
  "script getenv_AZURE_SUBSCRIPTION_ID p =
     (case module_init getenv_AZURE_SUBSCRIPTION_ID of
        Inl e \<Rightarrow> raise e
      | Inr subscription_id \<Rightarrow> main p subscription_id)"

section \<open>Vocabulary of the properties\<close>

subsection \<open>Events of one run\<close>

text \<open>The events a program adds to the trace when it runs from the world \<open>w\<close>.\<close>

definition issued_by :: "'a prog \<Rightarrow> world \<Rightarrow> event list" where
  "issued_by m w = drop (length (trace w)) (trace (snd (m w)))"

subsection \<open>Dependencies between entities\<close>

text \<open>
  An entity is created in a history when a create call for it returned; it is
  confirmed when, after that, a get of it returned.
\<close>

definition is_create_of :: "entity \<Rightarrow> event \<Rightarrow> bool" where
  "is_create_of ent ev = (case ev of (CreateOrUpdate e' _, None) \<Rightarrow> e' = ent | _ \<Rightarrow> False)"

definition created :: "entity \<Rightarrow> event list \<Rightarrow> bool" where
  "created ent h = list_ex (is_create_of ent) h"

fun confirmed :: "entity \<Rightarrow> event list \<Rightarrow> bool" where
  "confirmed ent [] = False"
| "confirmed ent (ev # h) =
     ((is_create_of ent ev \<and> list_ex (\<lambda>ev'. ev' = (Get ent, None)) h) \<or> confirmed ent h)"

text \<open>
  What an entity of the script refers to: a subnet and a database are addressed
  through their network and their server; the network interface is built from
  the subnet and the public IP address that create_network_interface reads
  (lines 128 to 132); the virtual machine names the network interface by its id
  (line 201).
\<close>

fun references :: "entity \<Rightarrow> entity list" where
  "references (Subnet rg vnet name) = [VirtualNetwork rg vnet]"
| "references (NetworkInterface rg name) =
     [Subnet rg VNET_NAME SUBNET_NAME, PublicIPAddress rg IP_NAME]"
| "references (VirtualMachine rg name) = [NetworkInterface rg NIC_NAME]"
| "references (SqlDatabase rg server name) = [SqlServer rg server]"
| "references _ = []"

text \<open>
  A create call is admissible after a history when everything the entity refers
  to is created there, and confirmed there where \<open>must_confirm\<close> asks for it.
  A run respects the dependencies when each of its calls is admissible after
  the events before it.
\<close>

definition admissible :: "(entity \<Rightarrow> bool) \<Rightarrow> event list \<Rightarrow> call \<Rightarrow> bool" where
  "admissible must_confirm h c =
     (case c of
        CreateOrUpdate ent _ \<Rightarrow>
          list_all (\<lambda>r. created r h \<and> (if must_confirm r then confirmed r h else True))
            (references ent)
      | _ \<Rightarrow> True)"

fun dependencies_respected :: "(entity \<Rightarrow> bool) \<Rightarrow> event list \<Rightarrow> event list \<Rightarrow> bool" where
  "dependencies_respected mc h [] = True"
| "dependencies_respected mc h (ev # evs) =
     (admissible mc h (fst ev) \<and> dependencies_respected mc (h @ [ev]) evs)"

text \<open>The spec asks for a confirmation of every reference; the script queries these.\<close>

fun every_reference :: "entity \<Rightarrow> bool" where
  "every_reference ent = True"

fun queried_before_use :: "entity \<Rightarrow> bool" where
  "queried_before_use (Subnet _ _ _) = True"
| "queried_before_use (PublicIPAddress _ _) = True"
| "queried_before_use (SqlServer _ _) = True"
| "queried_before_use _ = False"

subsection \<open>Verification that gives up\<close>

definition not_found_reply :: "entity \<Rightarrow> event \<Rightarrow> bool" where
  "not_found_reply ent ev =
     (fst ev = Get ent \<and>
      (case snd ev of None \<Rightarrow> False | Some e \<Rightarrow> cls e = ResourceNotFoundError))"

text \<open>
  If a get of the entity was answered with not-found in the run, the run ended
  with the \<open>NameError\<close>, that get was its last call, and it was the only get of
  the entity.
\<close>

definition fails_at_first_not_found :: "entity \<Rightarrow> exn + unit \<Rightarrow> event list \<Rightarrow> bool" where
  "fails_at_first_not_found ent r new \<longleftrightarrow>
     (list_ex (not_found_reply ent) new \<longrightarrow>
        r = Inl (name_error ''time'') \<and> not_found_reply ent (last new) \<and>
        length (filter (\<lambda>ev. fst ev = Get ent) new) = 1)"

subsection \<open>Call sequences\<close>

fun without_params :: "event \<Rightarrow> event" where
  "without_params (CreateOrUpdate ent ps, reply) = (CreateOrUpdate ent [], reply)"
| "without_params ev = ev"

text \<open>
  A provider on which every create, get and lifecycle call succeeds and which
  reports a resource group as existing once it has been created.
\<close>

definition reliable :: "provider \<Rightarrow> bool" where
  "reliable p \<longleftrightarrow>
     (\<forall>h c. \<not> isl (invoke p h c)) \<and>
     (\<forall>h name. check_existence p h name = Inr (created (ResourceGroup name) h))"

text \<open>Such a provider that also lists a first size, with a name.\<close>

definition cooperative :: "provider \<Rightarrow> bool" where
  "cooperative p \<longleftrightarrow>
     reliable p \<and>
     (\<forall>h location. case list_sizes p h location of
          Inl e \<Rightarrow> False
        | Inr sizes \<Rightarrow> sizes \<noteq> [] \<and> hd sizes \<noteq> [])"

definition returned :: "provider \<Rightarrow> event list \<Rightarrow> call \<Rightarrow> resource" where
  "returned p h c = projr (invoke p h c)"

definition offered :: "provider \<Rightarrow> event list \<Rightarrow> string \<Rightarrow> string list" where
  "offered p h location = projr (list_sizes p h location)"

text \<open>
  The sequence of the spec's end-to-end scenario: group-create, vnet-create,
  subnet-create, publicip-create, publicip-poll (success), nic-create,
  vmsize-list, vm-create, vm-poll (success).
\<close>

definition claimed_sequence :: "event list" where
  "claimed_sequence =
     [(CreateOrUpdate (ResourceGroup RESOURCE_GROUP_NAME) [], None),
      (CreateOrUpdate (VirtualNetwork RESOURCE_GROUP_NAME VNET_NAME) [], None),
      (CreateOrUpdate (Subnet RESOURCE_GROUP_NAME VNET_NAME SUBNET_NAME) [], None),
      (CreateOrUpdate (PublicIPAddress RESOURCE_GROUP_NAME IP_NAME) [], None),
      (Get (PublicIPAddress RESOURCE_GROUP_NAME IP_NAME), None),
      (CreateOrUpdate (NetworkInterface RESOURCE_GROUP_NAME NIC_NAME) [], None),
      (ListVmSizes LOCATION, None),
      (CreateOrUpdate (VirtualMachine RESOURCE_GROUP_NAME VM_NAME) [], None),
      (Get (VirtualMachine RESOURCE_GROUP_NAME VM_NAME), None)]"

text \<open>The calls of create_virtual_machine after those of create_resource_group.\<close>

definition vm_sequence :: "event list" where
  "vm_sequence =
     [(CreateOrUpdate (VirtualNetwork RESOURCE_GROUP_NAME VNET_NAME) [], None),
      (CreateOrUpdate (Subnet RESOURCE_GROUP_NAME VNET_NAME SUBNET_NAME) [], None),
      (CreateOrUpdate (PublicIPAddress RESOURCE_GROUP_NAME IP_NAME) [], None),
      (Get (PublicIPAddress RESOURCE_GROUP_NAME IP_NAME), None),
      (Get (Subnet RESOURCE_GROUP_NAME VNET_NAME SUBNET_NAME), None),
      (Get (PublicIPAddress RESOURCE_GROUP_NAME IP_NAME), None),
      (CreateOrUpdate (NetworkInterface RESOURCE_GROUP_NAME NIC_NAME) [], None),
      (ListVmSizes LOCATION, None),
      (CreateOrUpdate (VirtualMachine RESOURCE_GROUP_NAME VM_NAME) [], None),
      (Get (VirtualMachine RESOURCE_GROUP_NAME VM_NAME), None)]"

text \<open>The calls of the whole script, when nothing fails.\<close>

definition actual_sequence :: "string \<Rightarrow> string \<Rightarrow> event list" where
  "actual_sequence sql_server_name storage_account_name =
     [(CheckExistence (ResourceGroup RESOURCE_GROUP_NAME), None),
      (CreateOrUpdate (ResourceGroup RESOURCE_GROUP_NAME) [], None),
      (CheckExistence (ResourceGroup RESOURCE_GROUP_NAME), None)] @
     vm_sequence @
     [(CreateOrUpdate (SqlServer RESOURCE_GROUP_NAME sql_server_name) [], None),
      (Get (SqlServer RESOURCE_GROUP_NAME sql_server_name), None),
      (CreateOrUpdate (SqlDatabase RESOURCE_GROUP_NAME sql_server_name SQL_DB_NAME) [], None),
      (CreateOrUpdate (StorageAccount RESOURCE_GROUP_NAME storage_account_name) [], None)]"

subsection \<open>Provider stubs\<close>

text \<open>
  A stub answers every call with success, but for the calls its first argument
  fails; it lists the sizes of its second argument, and reports a resource
  group as existing once it has been created.
\<close>

definition stub :: "(event list \<Rightarrow> call \<Rightarrow> exn option) \<Rightarrow> string list \<Rightarrow> provider" where
  "stub failure sizes =
     \<lparr>check_existence = (\<lambda>h name. Inr (created (ResourceGroup name) h)),
      list_sizes = (\<lambda>h location. Inr sizes),
      invoke = (\<lambda>h c. case failure h c of Some e \<Rightarrow> Inl e | None \<Rightarrow> Inr ''ok'')\<rparr>"

definition not_found :: exn where
  "not_found = Exn ResourceNotFoundError ''ResourceNotFound''"

definition conflict :: exn where
  "conflict = Exn ResourceExistsError ''StorageAccountAlreadyTaken''"

definition forbidden :: exn where
  "forbidden = Exn HttpResponseError ''AuthorizationFailed''"

fun no_failure :: "event list \<Rightarrow> call \<Rightarrow> exn option" where
  "no_failure h c = None"

fun vm_missing :: "event list \<Rightarrow> call \<Rightarrow> exn option" where
  "vm_missing h (Start _) = Some not_found"
| "vm_missing h (PowerOff _) = Some not_found"
| "vm_missing h (Delete _) = Some not_found"
| "vm_missing h _ = None"

fun vm_forbidden :: "event list \<Rightarrow> call \<Rightarrow> exn option" where
  "vm_forbidden h (Start _) = Some forbidden"
| "vm_forbidden h (PowerOff _) = Some forbidden"
| "vm_forbidden h (Delete _) = Some forbidden"
| "vm_forbidden h _ = None"

fun name_taken :: "event list \<Rightarrow> call \<Rightarrow> exn option" where
  "name_taken h (CreateOrUpdate (StorageAccount _ _) _) = Some conflict"
| "name_taken h _ = None"

fun storage_forbidden :: "event list \<Rightarrow> call \<Rightarrow> exn option" where
  "storage_forbidden h (CreateOrUpdate (StorageAccount _ _) _) = Some forbidden"
| "storage_forbidden h _ = None"

text \<open>Not found at the first get of a public IP address, found from the second on.\<close>

fun ip_found_at_second_get :: "event list \<Rightarrow> call \<Rightarrow> exn option" where
  "ip_found_at_second_get h (Get (PublicIPAddress rg name)) =
     (if list_ex (\<lambda>ev. fst ev = Get (PublicIPAddress rg name)) h then None else Some not_found)"
| "ip_found_at_second_get h _ = None"

fun ip_never_found :: "event list \<Rightarrow> call \<Rightarrow> exn option" where
  "ip_never_found h (Get (PublicIPAddress _ _)) = Some not_found"
| "ip_never_found h _ = None"

fun vm_never_found :: "event list \<Rightarrow> call \<Rightarrow> exn option" where
  "vm_never_found h (Get (VirtualMachine _ _)) = Some not_found"
| "vm_never_found h _ = None"

fun sql_server_never_found :: "event list \<Rightarrow> call \<Rightarrow> exn option" where
  "sql_server_never_found h (Get (SqlServer _ _)) = Some not_found"
| "sql_server_never_found h _ = None"

definition standard_sizes :: "string list" where
  "standard_sizes = [''Standard_D2a_v4'', ''Standard_B1s'']"

definition other_sizes :: "string list" where
  "other_sizes = [''Standard_D2a_v4'', ''Standard_F2s'']"

definition zero_draws :: "nat \<Rightarrow> nat" where
  "zero_draws i = 0"

definition world0 :: world where
  "world0 = init_world zero_draws"

subsection \<open>Names for parts of a run\<close>

text \<open>The name generate_unique_name returns in the world \<open>w\<close>.\<close>

definition unique_name :: "string \<Rightarrow> world \<Rightarrow> string" where
  "unique_name base_name w = base_name @ random_choices (ascii_lowercase @ digits) 6 (rng w)"

text \<open>
  The calls of create_resource_group after the history \<open>h\<close>, on a provider that
  reports the group as existing once it has been created.
\<close>

definition rg_calls :: "event list \<Rightarrow> event list" where
  "rg_calls h =
     (if created (ResourceGroup RESOURCE_GROUP_NAME) h
      then [(CheckExistence (ResourceGroup RESOURCE_GROUP_NAME), None)]
      else [(CheckExistence (ResourceGroup RESOURCE_GROUP_NAME), None),
            (CreateOrUpdate (ResourceGroup RESOURCE_GROUP_NAME) [], None)])"

text \<open>
  The world in which create_virtual_machine lists the sizes, when its first
  four steps have returned (lines 167 to 172).
\<close>

definition provisioned :: "provider \<Rightarrow> world \<Rightarrow> world" where
  "provisioned p w =
     snd (logging INFO ''Deploying virtual machine...''
       (snd (create_network_interface p (snd (create_public_ip p
         (snd (create_virtual_network p (snd (create_resource_group p w)))))))))"

subsection \<open>Assertions on traces\<close>

text \<open>
  \<open>establishes P m Q X\<close>: from a world whose trace satisfies \<open>P\<close>, the program
  \<open>m\<close> ends in a world whose trace satisfies \<open>Q\<close> when it returns and \<open>X\<close>
  when it raises.
\<close>

definition establishes ::
  "(event list \<Rightarrow> bool) \<Rightarrow> 'a prog \<Rightarrow> ('a \<Rightarrow> event list \<Rightarrow> bool) \<Rightarrow>
     (exn \<Rightarrow> event list \<Rightarrow> bool) \<Rightarrow> bool" where
  "establishes P m Q X \<longleftrightarrow>
     (\<forall>w. P (trace w) \<longrightarrow>
        (case m w of (Inl e, w') \<Rightarrow> X e (trace w') | (Inr x, w') \<Rightarrow> Q x (trace w')))"

fun vm_query :: "call \<Rightarrow> bool" where
  "vm_query (Get (VirtualMachine _ _)) = True"
| "vm_query _ = False"

text \<open>
  An assertion is closed when it survives every extension of the trace that
  respects the dependencies and holds no get of a virtual machine.
\<close>

definition closed :: "(event list \<Rightarrow> bool) \<Rightarrow> bool" where
  "closed J \<longleftrightarrow>
     (\<forall>h ext. J h \<longrightarrow> dependencies_respected queried_before_use h ext \<longrightarrow>
        list_all (\<lambda>ev. \<not> vm_query (fst ev)) ext \<longrightarrow> J (h @ ext))"

text \<open>The trace ends with the one get of a verification loop, and \<open>r\<close> is what the loop gave.\<close>

definition polled :: "(event list \<Rightarrow> bool) \<Rightarrow> entity \<Rightarrow> exn + unit \<Rightarrow> event list \<Rightarrow> bool" where
  "polled J ent r h \<longleftrightarrow>
     (\<exists>h0 reply. h = h0 @ [(Get ent, reply)] \<and> J h0 \<and>
        r = (case reply of None \<Rightarrow> Inr ()
             | Some e \<Rightarrow> Inl (if cls e = ResourceNotFoundError then name_error ''time'' else e)))"

definition respects_from :: "event list \<Rightarrow> event list \<Rightarrow> bool" where
  "respects_from h0 h \<longleftrightarrow>
     (\<exists>new. h = h0 @ new \<and> dependencies_respected queried_before_use h0 new)"

definition unqueried_from :: "event list \<Rightarrow> event list \<Rightarrow> bool" where
  "unqueried_from h0 h \<longleftrightarrow> (\<exists>new. h = h0 @ new \<and> list_all (\<lambda>ev. \<not> vm_query (fst ev)) new)"

text \<open>
  \<open>happy m w new\<close>: run from \<open>w\<close>, the program returns, leaves the random
  generator as it was and adds the calls \<open>new\<close>, all answered with success.
\<close>

definition happy :: "'a prog \<Rightarrow> world \<Rightarrow> event list \<Rightarrow> bool" where
  "happy m w new \<longleftrightarrow>
     \<not> isl (fst (m w)) \<and> rng (snd (m w)) = rng w \<and>
     map without_params (trace (snd (m w))) = map without_params (trace w) @ new"

section \<open>Running programs\<close>

lemmas prog_defs = ret_def raise_def bind_prog_def then_prog_def try_except_def logging_def
  issue_def call_check_existence_def call_list_sizes_def call_invoke_def outcome_def

lemmas stub_defs = stub_def world0_def init_world_def standard_sizes_def other_sizes_def
  zero_draws_def not_found_def conflict_def forbidden_def

lemma isinstance_not_found [simp]:
  "isinstance e ResourceNotFoundError = (cls e = ResourceNotFoundError)"
  by (simp add: isinstance_def)

lemma isinstance_exists [simp]:
  "isinstance e ResourceExistsError = (cls e = ResourceExistsError)"
  by (simp add: isinstance_def)

lemma then_prog_step: "\<not> isl (fst (m w)) \<Longrightarrow> then_prog m k w = k (snd (m w))"
  unfolding then_prog_def bind_prog_def by (cases "m w"; cases "fst (m w)") auto

subsection \<open>One iteration of a verification loop\<close>

text \<open>The module never binds the name \<open>time\<close>.\<close>

lemma time_unbound: "''time'' \<notin> set module_names"
  by (simp add: module_names_def)

text \<open>
  An iteration either leaves the loop or raises: the get returns and the loop
  breaks, or it raises not-found and \<open>time.sleep\<close> raises in the handler, or it
  raises something else, which the handler lets through. No iteration is
  followed by another.
\<close>

lemma verify_loop_Suc:
  "verify_loop (Suc n) p ent found retrying failed w =
     (case invoke p (trace w) (Get ent) of
        Inr info \<Rightarrow> (Inr (), w\<lparr>trace := trace w @ [(Get ent, None)],
                                 logfile := logfile w @ [(INFO, found)]\<rparr>)
      | Inl e \<Rightarrow>
          if cls e = ResourceNotFoundError
          then (Inl (name_error ''time''),
                w\<lparr>trace := trace w @ [(Get ent, Some e)],
                  logfile := logfile w @ [(WARNING, retrying)]\<rparr>)
          else (Inl e, w\<lparr>trace := trace w @ [(Get ent, Some e)]\<rparr>))"
  by (simp add: prog_defs time_sleep_def time_unbound Let_def split: sum.splits)

lemma verify_loop_pos:
  "0 < n \<Longrightarrow> verify_loop n p ent found retrying failed w =
     (case invoke p (trace w) (Get ent) of
        Inr info \<Rightarrow> (Inr (), w\<lparr>trace := trace w @ [(Get ent, None)],
                                 logfile := logfile w @ [(INFO, found)]\<rparr>)
      | Inl e \<Rightarrow>
          if cls e = ResourceNotFoundError
          then (Inl (name_error ''time''),
                w\<lparr>trace := trace w @ [(Get ent, Some e)],
                  logfile := logfile w @ [(WARNING, retrying)]\<rparr>)
          else (Inl e, w\<lparr>trace := trace w @ [(Get ent, Some e)]\<rparr>))"
  by (cases n) (simp_all only: verify_loop_Suc)

subsection \<open>Histories\<close>

lemma created_append: "created r (h @ ext) = (created r h \<or> created r ext)"
  by (simp add: created_def)

lemma confirmed_append:
  "confirmed r (h @ ext) =
     (confirmed r h \<or> (created r h \<and> list_ex (\<lambda>ev. ev = (Get r, None)) ext) \<or> confirmed r ext)"
  by (induction h) (auto simp: created_def)

lemma dependencies_respected_append:
  "dependencies_respected mc h (a @ b) =
     (dependencies_respected mc h a \<and> dependencies_respected mc (h @ a) b)"
  by (induction a arbitrary: h) auto

lemma dependencies_respected_query:
  "dependencies_respected mc h0 new \<Longrightarrow> dependencies_respected mc h0 (new @ [(Get ent, reply)])"
  by (simp add: dependencies_respected_append admissible_def)

lemma created_without_params: "created ent (map without_params h) = created ent h"
proof -
  have "is_create_of ent (without_params ev) = is_create_of ent ev" for ev
    by (cases ev rule: without_params.cases) (simp_all add: is_create_of_def)
  then show ?thesis
    by (simp add: created_def list_ex_iff)
qed

lemmas trace_simps = admissible_def created_append confirmed_append created_def is_create_of_def

subsection \<open>Rules for assertions\<close>

lemma establishesD:
  "establishes P m Q X \<Longrightarrow> P (trace w) \<Longrightarrow>
     (case fst (m w) of Inl e \<Rightarrow> X e (trace (snd (m w))) | Inr x \<Rightarrow> Q x (trace (snd (m w))))"
  unfolding establishes_def by (auto split: prod.splits sum.splits)

lemma est_then:
  "establishes P m (\<lambda>_. R) X \<Longrightarrow> establishes R k Q X \<Longrightarrow> establishes P (then_prog m k) Q X"
  unfolding establishes_def then_prog_def bind_prog_def
  by (fastforce split: prod.splits sum.splits)

lemma est_bind:
  "establishes P m R X \<Longrightarrow> (\<And>x. establishes (R x) (f x) Q X) \<Longrightarrow>
     establishes P (bind_prog m f) Q X"
  unfolding establishes_def bind_prog_def
  by (fastforce split: prod.splits sum.splits)

lemma est_try:
  "establishes P m Q X' \<Longrightarrow> (\<And>e. establishes (X' e) (h e) Q X) \<Longrightarrow>
     establishes P (try_except m h) Q X"
  unfolding establishes_def try_except_def
  by (fastforce split: prod.splits sum.splits)

lemma est_weaken:
  "establishes P' m Q' X' \<Longrightarrow> (\<And>h. P h \<Longrightarrow> P' h) \<Longrightarrow> (\<And>x h. Q' x h \<Longrightarrow> Q x h) \<Longrightarrow>
     (\<And>e h. X' e h \<Longrightarrow> X e h) \<Longrightarrow> establishes P m Q X"
  unfolding establishes_def
  by (fastforce split: prod.splits sum.splits)

lemma est_logging: "establishes P (logging l s) (\<lambda>_. P) X"
  by (simp add: establishes_def logging_def)

lemma est_log_raise: "establishes (X e) (then_prog (logging l s) (raise e)) Q X"
  by (simp add: establishes_def prog_defs)

lemma closedD:
  "closed J \<Longrightarrow> J h \<Longrightarrow> dependencies_respected queried_before_use h ext \<Longrightarrow>
     list_all (\<lambda>ev. \<not> vm_query (fst ev)) ext \<Longrightarrow> J (h @ ext)"
  by (simp add: closed_def)

lemma closed_created: "closed J \<Longrightarrow> closed (\<lambda>h. J h \<and> created r h)"
  by (simp add: closed_def created_append)

lemma closed_respects_from: "closed (respects_from h0)"
  unfolding closed_def respects_from_def
  by (auto simp: dependencies_respected_append)

lemma closed_unqueried_from: "closed (unqueried_from h0)"
  unfolding closed_def unqueried_from_def by auto

lemma polled_respects_from:
  "polled (respects_from h0) ent r h \<Longrightarrow> respects_from h0 h"
  unfolding polled_def respects_from_def
  by (auto intro: dependencies_respected_query)

subsection \<open>What each function does to the trace, whatever the provider answers\<close>

lemma create_resource_group_est:
  assumes "closed J"
  shows "establishes J (create_resource_group p) (\<lambda>_. J) (\<lambda>_. J)"
  unfolding establishes_def
  using closedD [OF assms]
  by (auto simp: create_resource_group_def prog_defs Let_def trace_simps
      split: sum.splits)

lemma create_virtual_network_est:
  assumes "closed J"
  shows "establishes J (create_virtual_network p)
     (\<lambda>_ h. J h \<and> created (VirtualNetwork RESOURCE_GROUP_NAME VNET_NAME) h
        \<and> created (Subnet RESOURCE_GROUP_NAME VNET_NAME SUBNET_NAME) h) (\<lambda>_. J)"
  unfolding establishes_def
  using closedD [OF assms]
  by (auto simp: create_virtual_network_def prog_defs Let_def trace_simps
      split: sum.splits)

lemma create_public_ip_est:
  assumes "closed J"
  shows "establishes J (create_public_ip p)
     (\<lambda>_ h. J h \<and> created (PublicIPAddress RESOURCE_GROUP_NAME IP_NAME) h) (\<lambda>_. J)"
  unfolding establishes_def
  using closedD [OF assms]
  by (auto simp: create_public_ip_def prog_defs Let_def trace_simps verify_loop_pos
      simp del: verify_loop.simps split: sum.splits)

lemma create_network_interface_est:
  assumes "closed J"
  shows "establishes
     (\<lambda>h. J h \<and> created (Subnet RESOURCE_GROUP_NAME VNET_NAME SUBNET_NAME) h
        \<and> created (PublicIPAddress RESOURCE_GROUP_NAME IP_NAME) h)
     (create_network_interface p)
     (\<lambda>_ h. J h \<and> created (NetworkInterface RESOURCE_GROUP_NAME NIC_NAME) h) (\<lambda>_. J)"
  unfolding establishes_def
  using closedD [OF assms]
  by (auto simp: create_network_interface_def prog_defs Let_def trace_simps
      split: sum.splits)

lemma get_available_vm_size_est:
  assumes "closed J"
  shows "establishes J (get_available_vm_size p location preferred_size) (\<lambda>_. J) (\<lambda>_. J)"
  unfolding establishes_def
  using closedD [OF assms]
  by (auto simp: get_available_vm_size_def prog_defs Let_def trace_simps
      split: sum.splits)

lemma verify_loop_est:
  assumes "0 < n"
  shows "establishes J (verify_loop n p ent found retrying failed)
     (\<lambda>x. polled J ent (Inr x)) (\<lambda>e. polled J ent (Inl e))"
  unfolding establishes_def
  using assms
  by (auto simp: verify_loop_pos polled_def simp del: verify_loop.simps split: sum.splits)

lemma setup_sql_database_est:
  assumes "closed J"
  shows "establishes J (setup_sql_database p) (\<lambda>_. J) (\<lambda>_. J)"
  unfolding establishes_def
  using closedD [OF assms]
  by (auto simp: setup_sql_database_def generate_unique_name_def prog_defs Let_def trace_simps
      verify_loop_pos simp del: verify_loop.simps split: sum.splits)

lemma configure_storage_account_est:
  assumes "closed J"
  shows "establishes J (configure_storage_account p) (\<lambda>_. J) (\<lambda>_. J)"
  unfolding establishes_def
  using closedD [OF assms]
  by (auto simp: configure_storage_account_def generate_unique_name_def prog_defs Let_def
      trace_simps split: sum.splits)

text \<open>The deployment of the virtual machine itself, lines 209 to 218.\<close>

lemma deploy_est:
  assumes "closed J"
  shows "establishes (\<lambda>h. J h \<and> created (NetworkInterface RESOURCE_GROUP_NAME NIC_NAME) h)
     (try_except
        (bind_prog
           (call_invoke p (CreateOrUpdate (VirtualMachine RESOURCE_GROUP_NAME VM_NAME) ps))
           (\<lambda>vm_result. logging INFO s1))
        (\<lambda>e. if isinstance e ResourceExistsError
           then then_prog (logging ERROR (s2 e)) (raise e)
           else if isinstance e HttpResponseError
           then then_prog (logging ERROR (s3 e)) (raise e)
           else raise e))
     (\<lambda>_. J) (\<lambda>_. J)"
  unfolding establishes_def
  using closedD [OF assms]
  by (auto simp: prog_defs Let_def trace_simps split: sum.splits)

text \<open>
  create_virtual_machine ends with the one get of its verification loop, or
  raised before the loop.
\<close>

lemma create_virtual_machine_est:
  assumes J: "closed J"
  shows "establishes J (create_virtual_machine p subscription_id)
     (\<lambda>x. polled J (VirtualMachine RESOURCE_GROUP_NAME VM_NAME) (Inr x))
     (\<lambda>e h. J h \<or> polled J (VirtualMachine RESOURCE_GROUP_NAME VM_NAME) (Inl e) h)"
    (is "establishes J _ ?Q ?X")
proof -
  let ?subnet = "Subnet RESOURCE_GROUP_NAME VNET_NAME SUBNET_NAME"
  let ?ip = "PublicIPAddress RESOURCE_GROUP_NAME IP_NAME"
  let ?nic = "NetworkInterface RESOURCE_GROUP_NAME NIC_NAME"
  let ?vm = "VirtualMachine RESOURCE_GROUP_NAME VM_NAME"
  let ?J1 = "\<lambda>h. J h \<and> created ?subnet h"
  let ?J2 = "\<lambda>h. J h \<and> created ?nic h"
  have J1: "closed ?J1" and J2: "closed ?J2"
    using J by (rule closed_created)+
  have rg: "establishes J (create_resource_group p) (\<lambda>_. J) ?X"
    by (rule est_weaken [OF create_resource_group_est [OF J]]) auto
  have vnet: "establishes J (create_virtual_network p) (\<lambda>_. ?J1) ?X"
    by (rule est_weaken [OF create_virtual_network_est [OF J]]) auto
  have ip: "establishes ?J1 (create_public_ip p)
      (\<lambda>_ h. J h \<and> created ?subnet h \<and> created ?ip h) ?X"
    by (rule est_weaken [OF create_public_ip_est [OF J1]]) auto
  have nic: "establishes (\<lambda>h. J h \<and> created ?subnet h \<and> created ?ip h)
      (create_network_interface p) (\<lambda>_. ?J2) ?X"
    by (rule est_weaken [OF create_network_interface_est [OF J]]) auto
  have log: "establishes ?J2 (logging INFO ''Deploying virtual machine...'') (\<lambda>_. ?J2) ?X"
    by (rule est_logging)
  have size: "establishes ?J2 (get_available_vm_size p LOCATION ''Standard_B1s'') (\<lambda>_. ?J2) ?X"
    by (rule est_weaken [OF get_available_vm_size_est [OF J2]]) auto
  have rest: "establishes ?J2
      (case (case vm_size of None \<Rightarrow> None | Some s \<Rightarrow> if s = [] then None else Some s) of
         None \<Rightarrow> raise (Exn Exception ''No available VM sizes found in the specified location.'')
       | Some vm_size \<Rightarrow>
           then_prog
             (try_except
                (bind_prog
                   (call_invoke p
                      (CreateOrUpdate ?vm (vm_parameters subscription_id vm_size)))
                   (\<lambda>vm_result. logging INFO (''VM '' @ quoted VM_NAME
                      @ '' deployed successfully with size '' @ quoted vm_size @ ''.'')))
                (\<lambda>e. if isinstance e ResourceExistsError
                   then then_prog
                      (logging ERROR (''Resource exists error while creating VM: '' @ message e))
                      (raise e)
                   else if isinstance e HttpResponseError
                   then then_prog
                      (logging ERROR
                         (''Failed to deploy VM, retrying due to error: '' @ message e))
                      (raise e)
                   else raise e))
             (verify_loop 10 p ?vm
                (''VM '' @ quoted VM_NAME @ '' has been created successfully.'')
                (''VM '' @ quoted VM_NAME @ '' not found yet. Retrying...'')
                (''VM '' @ quoted VM_NAME @ '' could not be verified after creation.'')))
      ?Q ?X" for vm_size
  proof (cases "case vm_size of None \<Rightarrow> None | Some s \<Rightarrow> if s = [] then None else Some s")
    case None
    show ?thesis
      unfolding None option.case by (simp add: establishes_def raise_def)
  next
    case (Some s)
    have deploy: "establishes ?J2
        (try_except
          (bind_prog
             (call_invoke p (CreateOrUpdate ?vm (vm_parameters subscription_id s)))
             (\<lambda>vm_result. logging INFO (''VM '' @ quoted VM_NAME
                @ '' deployed successfully with size '' @ quoted s @ ''.'')))
          (\<lambda>e. if isinstance e ResourceExistsError
             then then_prog
                (logging ERROR (''Resource exists error while creating VM: '' @ message e))
                (raise e)
             else if isinstance e HttpResponseError
             then then_prog
                (logging ERROR
                   (''Failed to deploy VM, retrying due to error: '' @ message e))
                (raise e)
             else raise e))
        (\<lambda>_. J) ?X"
      by (rule est_weaken [OF deploy_est [OF J]]) auto
    have verify: "establishes J
        (verify_loop 10 p ?vm
           (''VM '' @ quoted VM_NAME @ '' has been created successfully.'')
           (''VM '' @ quoted VM_NAME @ '' not found yet. Retrying...'')
           (''VM '' @ quoted VM_NAME @ '' could not be verified after creation.''))
        ?Q ?X"
      by (rule est_weaken [OF verify_loop_est [of 10]]) auto
    show ?thesis
      unfolding Some option.case by (rule est_then [OF deploy verify])
  qed
  show ?thesis
    unfolding create_virtual_machine_def
    by (intro est_try [where X' = ?X] est_then [OF rg] est_then [OF vnet] est_then [OF ip]
        est_then [OF nic] est_then [OF log] est_bind [OF size] rest est_log_raise)
qed

lemma main_est:
  "establishes (respects_from h0) (main p subscription_id)
     (\<lambda>_. respects_from h0) (\<lambda>_. respects_from h0)"
proof -
  note J = closed_respects_from [of h0]
  have vm: "establishes (respects_from h0) (create_virtual_machine p subscription_id)
      (\<lambda>_. respects_from h0) (\<lambda>_. respects_from h0)"
    by (rule est_weaken [OF create_virtual_machine_est [OF J]])
      (auto intro: polled_respects_from)
  show ?thesis
    unfolding main_def
    by (intro est_then [OF create_resource_group_est [OF J]] est_then [OF vm]
        est_then [OF setup_sql_database_est [OF J]] configure_storage_account_est [OF J])
qed

subsection \<open>A not-found answer in a verification loop\<close>

lemma polled_verdict:
  assumes "polled (unqueried_from h0) (VirtualMachine rg name) r h"
  shows "fails_at_first_not_found (VirtualMachine rg name) r (drop (length h0) h)"
proof -
  from assms obtain new reply where h: "h = (h0 @ new) @ [(Get (VirtualMachine rg name), reply)]"
    and new: "list_all (\<lambda>ev. \<not> vm_query (fst ev)) new"
    and r: "r = (case reply of None \<Rightarrow> Inr ()
             | Some e \<Rightarrow> Inl (if cls e = ResourceNotFoundError then name_error ''time'' else e))"
    unfolding polled_def unqueried_from_def by blast
  from new have none: "filter (\<lambda>ev. fst ev = Get (VirtualMachine rg name)) new = []"
    by (induction new) auto
  from new have nf: "\<not> list_ex (not_found_reply (VirtualMachine rg name)) new"
    by (induction new) (auto simp: not_found_reply_def)
  show ?thesis
    unfolding fails_at_first_not_found_def h using none nf r
    by (auto simp: not_found_reply_def split: option.splits)
qed

lemma unqueried_verdict:
  assumes "unqueried_from h0 h"
  shows "fails_at_first_not_found (VirtualMachine rg name) r (drop (length h0) h)"
proof -
  from assms obtain new where h: "h = h0 @ new"
    and new: "list_all (\<lambda>ev. \<not> vm_query (fst ev)) new"
    unfolding unqueried_from_def by blast
  from new have nf: "\<not> list_ex (not_found_reply (VirtualMachine rg name)) new"
    by (induction new) (auto simp: not_found_reply_def)
  then show ?thesis
    unfolding fails_at_first_not_found_def h by simp
qed

lemma create_virtual_machine_verdict:
  "fails_at_first_not_found (VirtualMachine RESOURCE_GROUP_NAME VM_NAME)
     (fst (create_virtual_machine p subscription_id w))
     (issued_by (create_virtual_machine p subscription_id) w)"
proof -
  have "unqueried_from (trace w) (trace w)"
    by (simp add: unqueried_from_def)
  from establishesD
    [OF create_virtual_machine_est [OF closed_unqueried_from, of _ p subscription_id] this]
  show ?thesis
    unfolding issued_by_def
    by (cases "fst (create_virtual_machine p subscription_id w)")
      (auto intro: polled_verdict unqueried_verdict)
qed

lemma create_public_ip_verdict:
  "fails_at_first_not_found (PublicIPAddress RESOURCE_GROUP_NAME IP_NAME)
     (fst (create_public_ip p w)) (issued_by (create_public_ip p) w)"
  apply (simp add: issued_by_def create_public_ip_def prog_defs Let_def verify_loop_pos
      del: verify_loop.simps split: sum.splits)
  apply (simp add: fails_at_first_not_found_def not_found_reply_def)
  done

lemma generate_unique_name_eq:
  "generate_unique_name base_name w =
     (Inr (unique_name base_name w), w\<lparr>rng := (\<lambda>i. rng w (i + 6))\<rparr>)"
  by (simp add: generate_unique_name_def unique_name_def Let_def)

lemma unique_name_frame [simp]:
  "unique_name base_name (w\<lparr>logfile := l\<rparr>) = unique_name base_name w"
  "unique_name base_name (w\<lparr>trace := t\<rparr>) = unique_name base_name w"
  by (simp_all add: unique_name_def)

lemma setup_sql_database_verdict:
  "fails_at_first_not_found (SqlServer RESOURCE_GROUP_NAME (unique_name SQL_SERVER_NAME w))
     (fst (setup_sql_database p w)) (issued_by (setup_sql_database p) w)"
  apply (simp add: issued_by_def setup_sql_database_def generate_unique_name_eq prog_defs
      Let_def verify_loop_pos del: verify_loop.simps split: sum.splits)
  apply (simp add: fails_at_first_not_found_def not_found_reply_def)
  done

subsection \<open>Runs on a provider that does not fail\<close>

lemma reliable_invoke:
  assumes "reliable p"
  shows "invoke p h c = Inr (returned p h c)"
proof -
  from assms have "\<not> isl (invoke p h c)"
    unfolding reliable_def by blast
  then show ?thesis
    unfolding returned_def by simp
qed

lemma reliable_check:
  "reliable p \<Longrightarrow> check_existence p h name = Inr (created (ResourceGroup name) h)"
  unfolding reliable_def by blast

lemma cooperative_reliable: "cooperative p \<Longrightarrow> reliable p"
  unfolding cooperative_def by blast

lemma cooperative_sizes:
  assumes "cooperative p"
  shows "list_sizes p h location = Inr (offered p h location)"
    and "offered p h location \<noteq> []" and "hd (offered p h location) \<noteq> []"
proof -
  from assms have "case list_sizes p h location of
      Inl e \<Rightarrow> False | Inr sizes \<Rightarrow> sizes \<noteq> [] \<and> hd sizes \<noteq> []"
    unfolding cooperative_def by blast
  then show "list_sizes p h location = Inr (offered p h location)"
    and "offered p h location \<noteq> []" and "hd (offered p h location) \<noteq> []"
    unfolding offered_def by (cases "list_sizes p h location"; simp)+
qed

lemma reliable_stub: "reliable (stub no_failure sizes)"
  by (simp add: reliable_def stub_def)

lemma cooperative_stub: "cooperative (stub no_failure standard_sizes)"
  by (simp add: cooperative_def reliable_stub) (simp add: stub_def standard_sizes_def)

lemma happy_then:
  "happy m w new1 \<Longrightarrow> happy k (snd (m w)) new2 \<Longrightarrow> happy (then_prog m k) w (new1 @ new2)"
  unfolding happy_def then_prog_def bind_prog_def
  by (cases "m w"; cases "fst (m w)") auto

lemma happy_bind:
  "happy m w new1 \<Longrightarrow> happy (f (projr (fst (m w)))) (snd (m w)) new2 \<Longrightarrow>
     happy (bind_prog m f) w (new1 @ new2)"
  unfolding happy_def bind_prog_def
  by (cases "m w"; cases "fst (m w)") auto

lemma happy_try: "happy m w new \<Longrightarrow> happy (try_except m h) w new"
  unfolding happy_def try_except_def
  by (cases "m w"; cases "fst (m w)") auto

lemma happy_logging: "happy (logging l s) w []"
  by (simp add: happy_def logging_def)

lemma issued_by_without_params:
  assumes "map without_params (trace (snd (m w))) = map without_params (trace w) @ new"
  shows "map without_params (issued_by m w) = new"
proof -
  have "map without_params (issued_by m w) =
      drop (length (map without_params (trace w))) (map without_params (trace (snd (m w))))"
    by (simp add: issued_by_def drop_map)
  also have "\<dots> = new"
    unfolding assms by (simp del: length_map)
  finally show ?thesis .
qed

lemma happy_create:
  assumes "reliable p"
  shows "happy (call_invoke p (CreateOrUpdate ent ps)) w [(CreateOrUpdate ent [], None)]"
  by (simp add: happy_def prog_defs Let_def reliable_invoke [OF assms])

lemma happy_verify_loop:
  assumes "reliable p" and "0 < n"
  shows "happy (verify_loop n p ent found retrying failed) w [(Get ent, None)]"
  using assms(2)
  by (simp add: happy_def verify_loop_pos reliable_invoke [OF assms(1)] del: verify_loop.simps)

lemma happy_create_resource_group:
  assumes "reliable p"
  shows "happy (create_resource_group p) w (rg_calls (trace w))"
  by (simp add: happy_def rg_calls_def create_resource_group_def prog_defs Let_def
      reliable_invoke [OF assms] reliable_check [OF assms])

lemma happy_create_virtual_network:
  assumes "reliable p"
  shows "happy (create_virtual_network p) w
     [(CreateOrUpdate (VirtualNetwork RESOURCE_GROUP_NAME VNET_NAME) [], None),
      (CreateOrUpdate (Subnet RESOURCE_GROUP_NAME VNET_NAME SUBNET_NAME) [], None)]"
  by (simp add: happy_def create_virtual_network_def prog_defs Let_def
      reliable_invoke [OF assms])

lemma happy_create_public_ip:
  assumes "reliable p"
  shows "happy (create_public_ip p) w
     [(CreateOrUpdate (PublicIPAddress RESOURCE_GROUP_NAME IP_NAME) [], None),
      (Get (PublicIPAddress RESOURCE_GROUP_NAME IP_NAME), None)]"
  by (simp add: happy_def create_public_ip_def prog_defs Let_def reliable_invoke [OF assms]
      verify_loop_pos del: verify_loop.simps)

lemma happy_create_network_interface:
  assumes "reliable p"
  shows "happy (create_network_interface p) w
     [(Get (Subnet RESOURCE_GROUP_NAME VNET_NAME SUBNET_NAME), None),
      (Get (PublicIPAddress RESOURCE_GROUP_NAME IP_NAME), None),
      (CreateOrUpdate (NetworkInterface RESOURCE_GROUP_NAME NIC_NAME) [], None)]"
  by (simp add: happy_def create_network_interface_def prog_defs Let_def
      reliable_invoke [OF assms])

text \<open>What get_available_vm_size returns when the provider lists \<open>sizes\<close>.\<close>

lemma get_available_vm_size_listed:
  assumes "list_sizes p (trace w) location = Inr sizes"
  shows "fst (get_available_vm_size p location preferred_size w) =
      Inr (if preferred_size \<in> set sizes then Some preferred_size
           else case sizes of [] \<Rightarrow> None | first # _ \<Rightarrow> Some first)"
    and "happy (get_available_vm_size p location preferred_size) w [(ListVmSizes location, None)]"
  using assms by (simp_all add: happy_def get_available_vm_size_def prog_defs Let_def)

text \<open>
  The steps of create_virtual_machine before the size is chosen, lines 167 to
  172, bring the world \<open>w\<close> to \<open>provisioned p w\<close>.
\<close>

lemma provisioning_steps:
  assumes p: "reliable p"
  shows "then_prog (create_resource_group p)
       (then_prog (create_virtual_network p)
       (then_prog (create_public_ip p)
       (then_prog (create_network_interface p)
       (then_prog (logging INFO ''Deploying virtual machine...'') k)))) w = k (provisioned p w)"
    and "rng (provisioned p w) = rng w"
    and "map without_params (trace (provisioned p w)) =
      map without_params (trace w) @ rg_calls (trace w) @ take 7 vm_sequence"
proof -
  let ?w1 = "snd (create_resource_group p w)"
  let ?w2 = "snd (create_virtual_network p ?w1)"
  let ?w3 = "snd (create_public_ip p ?w2)"
  let ?w4 = "snd (create_network_interface p ?w3)"
  note 1 = happy_create_resource_group [OF p, of w, unfolded happy_def]
  note 2 = happy_create_virtual_network [OF p, of ?w1, unfolded happy_def]
  note 3 = happy_create_public_ip [OF p, of ?w2, unfolded happy_def]
  note 4 = happy_create_network_interface [OF p, of ?w3, unfolded happy_def]
  note 5 = happy_logging [of INFO "''Deploying virtual machine...''" ?w4, unfolded happy_def]
  have ok: "\<not> isl (fst (create_resource_group p w))"
    "\<not> isl (fst (create_virtual_network p ?w1))"
    "\<not> isl (fst (create_public_ip p ?w2))"
    "\<not> isl (fst (create_network_interface p ?w3))"
    "\<not> isl (fst (logging INFO ''Deploying virtual machine...'' ?w4))"
    using 1 2 3 4 5 by blast+
  show "then_prog (create_resource_group p)
       (then_prog (create_virtual_network p)
       (then_prog (create_public_ip p)
       (then_prog (create_network_interface p)
       (then_prog (logging INFO ''Deploying virtual machine...'') k)))) w = k (provisioned p w)"
    unfolding provisioned_def by (simp only: then_prog_step ok simp_thms)
  show "rng (provisioned p w) = rng w"
    unfolding provisioned_def using 1 2 3 4 5 by simp
  show "map without_params (trace (provisioned p w)) =
      map without_params (trace w) @ rg_calls (trace w) @ take 7 vm_sequence"
    unfolding provisioned_def using 1 2 3 4 5 by (simp add: vm_sequence_def)
qed

lemma create_virtual_machine_cooperative:
  assumes p: "cooperative p"
  shows "happy (create_virtual_machine p subscription_id) w (rg_calls (trace w) @ vm_sequence)"
proof -
  note r = cooperative_reliable [OF p]
  let ?vm = "VirtualMachine RESOURCE_GROUP_NAME VM_NAME"
  let ?w5 = "provisioned p w"
  let ?size = "get_available_vm_size p LOCATION ''Standard_B1s''"
  let ?w6 = "snd (?size ?w5)"
  note sizes = cooperative_sizes [OF p, of "trace ?w5" LOCATION]
  note listed = get_available_vm_size_listed [OF sizes(1), of "''Standard_B1s''"]
  have "\<exists>s. fst (?size ?w5) = Inr (Some s) \<and> s \<noteq> []"
    unfolding listed(1) using sizes(2,3)
    by (cases "offered p (trace ?w5) LOCATION") auto
  then obtain s where s: "fst (?size ?w5) = Inr (Some s)" "s \<noteq> []"
    by blast
  have deploy: "happy
      (try_except
         (bind_prog
            (call_invoke p (CreateOrUpdate ?vm (vm_parameters subscription_id s)))
            (\<lambda>vm_result. logging INFO (''VM '' @ quoted VM_NAME
               @ '' deployed successfully with size '' @ quoted s @ ''.'')))
         h) ?w6 ([(CreateOrUpdate ?vm [], None)] @ [])" for h
    by (intro happy_try happy_bind happy_logging happy_create [OF r])
  let ?rest = "\<lambda>vm_size.
      case (case vm_size of None \<Rightarrow> None | Some s \<Rightarrow> if s = [] then None else Some s) of
         None \<Rightarrow> raise (Exn Exception ''No available VM sizes found in the specified location.'')
       | Some vm_size \<Rightarrow>
           then_prog
             (try_except
                (bind_prog
                   (call_invoke p
                      (CreateOrUpdate ?vm (vm_parameters subscription_id vm_size)))
                   (\<lambda>vm_result. logging INFO (''VM '' @ quoted VM_NAME
                      @ '' deployed successfully with size '' @ quoted vm_size @ ''.'')))
                (\<lambda>e. if isinstance e ResourceExistsError
                   then then_prog
                      (logging ERROR (''Resource exists error while creating VM: '' @ message e))
                      (raise e)
                   else if isinstance e HttpResponseError
                   then then_prog
                      (logging ERROR
                         (''Failed to deploy VM, retrying due to error: '' @ message e))
                      (raise e)
                   else raise e))
             (verify_loop 10 p ?vm
                (''VM '' @ quoted VM_NAME @ '' has been created successfully.'')
                (''VM '' @ quoted VM_NAME @ '' not found yet. Retrying...'')
                (''VM '' @ quoted VM_NAME @ '' could not be verified after creation.''))"
  have rest: "happy (?rest (projr (fst (?size ?w5)))) ?w6
      (([(CreateOrUpdate ?vm [], None)] @ []) @ [(Get ?vm, None)])"
    unfolding s sum.sel option.case if_not_P [OF s(2)]
    by (intro happy_then deploy happy_verify_loop [OF r]) simp
  have "happy (bind_prog ?size ?rest) ?w5
      ([(ListVmSizes LOCATION, None)] @ ([(CreateOrUpdate ?vm [], None)] @ []) @ [(Get ?vm, None)])"
    by (intro happy_bind listed(2) rest)
  then have "happy
      (then_prog (create_resource_group p)
       (then_prog (create_virtual_network p)
       (then_prog (create_public_ip p)
       (then_prog (create_network_interface p)
       (then_prog (logging INFO ''Deploying virtual machine...'')
          (bind_prog ?size ?rest)))))) w (rg_calls (trace w) @ vm_sequence)"
    unfolding happy_def provisioning_steps [OF r]
    by (simp add: vm_sequence_def)
  then show ?thesis
    unfolding create_virtual_machine_def by (rule happy_try)
qed

lemma create_virtual_machine_no_capacity:
  assumes r: "reliable p"
    and none: "list_sizes p (trace (provisioned p w)) LOCATION = Inr []"
  shows "fst (create_virtual_machine p subscription_id w) =
      Inl (Exn Exception ''No available VM sizes found in the specified location.'')"
    and "map without_params (issued_by (create_virtual_machine p subscription_id) w) =
      rg_calls (trace w) @ take 8 vm_sequence"
proof -
  let ?w5 = "provisioned p w"
  let ?size = "get_available_vm_size p LOCATION ''Standard_B1s''"
  let ?w6 = "snd (?size ?w5)"
  let ?exn = "Exn Exception ''No available VM sizes found in the specified location.''"
  note listed = get_available_vm_size_listed [OF none, of "''Standard_B1s''"]
  from listed(1) have size: "fst (?size ?w5) = Inr None"
    by simp
  have run: "create_virtual_machine p subscription_id w =
      then_prog (logging ERROR (''Error deploying VM: '' @ message ?exn)) (raise ?exn) ?w6"
    unfolding create_virtual_machine_def try_except_def provisioning_steps(1) [OF r]
    using size by (cases "?size ?w5") (simp add: bind_prog_def raise_def)
  show "fst (create_virtual_machine p subscription_id w) = Inl ?exn"
    unfolding run by (simp add: prog_defs)
  have "map without_params (trace (snd (create_virtual_machine p subscription_id w))) =
      map without_params (trace w) @ rg_calls (trace w) @ take 8 vm_sequence"
    unfolding run using listed(2) provisioning_steps(3) [OF r, of w]
    by (simp add: prog_defs happy_def vm_sequence_def)
  then show "map without_params (issued_by (create_virtual_machine p subscription_id) w) =
      rg_calls (trace w) @ take 8 vm_sequence"
    by (rule issued_by_without_params)
qed

lemma setup_sql_database_reliable:
  assumes "reliable p"
  shows "fst (setup_sql_database p w) = Inr ()"
    and "rng (snd (setup_sql_database p w)) = rng (snd (generate_unique_name SQL_SERVER_NAME w))"
    and "map without_params (trace (snd (setup_sql_database p w))) =
      map without_params (trace w) @
      [(CreateOrUpdate (SqlServer RESOURCE_GROUP_NAME (unique_name SQL_SERVER_NAME w)) [], None),
       (Get (SqlServer RESOURCE_GROUP_NAME (unique_name SQL_SERVER_NAME w)), None),
       (CreateOrUpdate
          (SqlDatabase RESOURCE_GROUP_NAME (unique_name SQL_SERVER_NAME w) SQL_DB_NAME) [],
        None)]"
  by (simp_all add: setup_sql_database_def generate_unique_name_eq prog_defs Let_def
      reliable_invoke [OF assms] verify_loop_pos del: verify_loop.simps)

lemma configure_storage_account_reliable:
  assumes "reliable p"
  shows "fst (configure_storage_account p w) = Inr ()"
    and "map without_params (trace (snd (configure_storage_account p w))) =
      map without_params (trace w) @
      [(CreateOrUpdate
          (StorageAccount RESOURCE_GROUP_NAME (unique_name STORAGE_ACCOUNT_NAME w)) [], None)]"
  by (simp_all add: configure_storage_account_def generate_unique_name_eq prog_defs Let_def
      reliable_invoke [OF assms])

subsection \<open>Runs on the stubs\<close>

lemmas op_defs = create_resource_group_def create_virtual_network_def create_public_ip_def
  create_network_interface_def get_available_vm_size_def create_virtual_machine_def
  setup_sql_database_def configure_storage_account_def generate_unique_name_def main_def

lemma ip_found_at_second_get_run:
  "fst (create_public_ip (stub ip_found_at_second_get standard_sizes) world0) =
     Inl (name_error ''time'')"
  "issued_by (create_public_ip (stub ip_found_at_second_get standard_sizes)) world0 =
     [(CreateOrUpdate (PublicIPAddress RESOURCE_GROUP_NAME IP_NAME)
         [(''location'', LOCATION), (''public_ip_allocation_method'', ''Dynamic'')], None),
      (Get (PublicIPAddress RESOURCE_GROUP_NAME IP_NAME), Some not_found)]"
  "invoke (stub ip_found_at_second_get standard_sizes)
     (trace (snd (create_public_ip (stub ip_found_at_second_get standard_sizes) world0)))
     (Get (PublicIPAddress RESOURCE_GROUP_NAME IP_NAME)) = Inr ''ok''"
  by (simp_all add: issued_by_def create_public_ip_def prog_defs Let_def stub_defs
      verify_loop_pos del: verify_loop.simps)

lemma ip_never_found_run:
  "fst (create_public_ip (stub ip_never_found standard_sizes) world0) =
     Inl (name_error ''time'')"
  "issued_by (create_public_ip (stub ip_never_found standard_sizes)) world0 =
     [(CreateOrUpdate (PublicIPAddress RESOURCE_GROUP_NAME IP_NAME)
         [(''location'', LOCATION), (''public_ip_allocation_method'', ''Dynamic'')], None),
      (Get (PublicIPAddress RESOURCE_GROUP_NAME IP_NAME), Some not_found)]"
  by (simp_all add: issued_by_def create_public_ip_def prog_defs Let_def stub_defs
      verify_loop_pos del: verify_loop.simps)

lemma vm_never_found_run:
  "fst (create_virtual_machine (stub vm_never_found standard_sizes) ''sub'' world0) =
     Inl (name_error ''time'')"
  "map without_params
     (issued_by (create_virtual_machine (stub vm_never_found standard_sizes) ''sub'') world0) =
     (CheckExistence (ResourceGroup RESOURCE_GROUP_NAME), None) #
     (CreateOrUpdate (ResourceGroup RESOURCE_GROUP_NAME) [], None) #
     butlast vm_sequence @ [(Get (VirtualMachine RESOURCE_GROUP_NAME VM_NAME), Some not_found)]"
  by (simp_all add: issued_by_def vm_sequence_def op_defs prog_defs Let_def stub_defs
      verify_loop_pos created_def is_create_of_def del: verify_loop.simps)

lemma sql_server_never_found_run:
  "fst (setup_sql_database (stub sql_server_never_found standard_sizes) world0) =
     Inl (name_error ''time'')"
  "map without_params
     (issued_by (setup_sql_database (stub sql_server_never_found standard_sizes)) world0) =
     [(CreateOrUpdate (SqlServer RESOURCE_GROUP_NAME (unique_name SQL_SERVER_NAME world0)) [],
       None),
      (Get (SqlServer RESOURCE_GROUP_NAME (unique_name SQL_SERVER_NAME world0)),
       Some not_found)]"
  by (simp_all add: issued_by_def setup_sql_database_def generate_unique_name_eq prog_defs
      Let_def stub_def not_found_def verify_loop_pos del: verify_loop.simps)

section \<open>The claims\<close>

subsection \<open>Dependencies (C1)\<close>

text \<open>
  C1, as the script has it. In every run of the script's main block, whatever
  the provider answers, each create call is issued only after the create call
  of every entity it refers to has returned (the virtual network before its
  subnet, the subnet and the public IP address before the network interface,
  the network interface before the virtual machine, the SQL server before its
  database), and after a get of the subnet, of the public IP address and of the
  SQL server has returned. The virtual network and the network interface are
  not queried before they are used.
\<close>

theorem main_respects_dependencies:
  "dependencies_respected queried_before_use (trace w) (issued_by (main p subscription_id) w)"
proof -
  have "respects_from (trace w) (trace w)"
    by (simp add: respects_from_def)
  from establishesD [OF main_est this]
  have "respects_from (trace w) (trace (snd (main p subscription_id w)))"
    by (cases "fst (main p subscription_id w)") simp_all
  then show ?thesis
    by (auto simp: respects_from_def issued_by_def)
qed

theorem main_respects_dependencies_witness:
  "dependencies_respected queried_before_use []
     (issued_by (main (stub no_failure standard_sizes) ''sub'') world0)"
  using main_respects_dependencies [of world0 "stub no_failure standard_sizes" "''sub''"]
  by (simp add: world0_def init_world_def)

text \<open>
  C1 as the spec states it asks for a confirmation of every reference. On a
  provider that never fails the subnet is created right after its virtual
  network, which no call has queried.
\<close>

theorem unconfirmed_reference_counterexample:
  "\<not> dependencies_respected every_reference (trace world0)
       (issued_by (main (stub no_failure standard_sizes) ''sub'') world0)"
  by (simp add: issued_by_def op_defs prog_defs Let_def stub_defs verify_loop_pos
      created_def is_create_of_def admissible_def del: verify_loop.simps)

subsection \<open>Verification loops (C2, C10)\<close>

text \<open>
  C2 does not hold of the script. The public IP address is reported not found
  at the first get and would be found at the second: create_public_ip raises
  the \<open>NameError\<close> after that one get. When it is never found, the same
  happens: one get, and no exception of the loop's \<open>else\<close> branch after ten.
  The same holds of the loops for the virtual machine and the SQL server.
\<close>

theorem verification_gives_up_at_first_not_found:
  "invoke (stub ip_found_at_second_get standard_sizes)
     (trace (snd (create_public_ip (stub ip_found_at_second_get standard_sizes) world0)))
     (Get (PublicIPAddress RESOURCE_GROUP_NAME IP_NAME)) = Inr ''ok'' \<and>
   fst (create_public_ip (stub ip_found_at_second_get standard_sizes) world0) =
     Inl (name_error ''time'') \<and>
   issued_by (create_public_ip (stub ip_found_at_second_get standard_sizes)) world0 =
     [(CreateOrUpdate (PublicIPAddress RESOURCE_GROUP_NAME IP_NAME)
         [(''location'', LOCATION), (''public_ip_allocation_method'', ''Dynamic'')], None),
      (Get (PublicIPAddress RESOURCE_GROUP_NAME IP_NAME), Some not_found)] \<and>
   fst (create_public_ip (stub ip_never_found standard_sizes) world0) =
     Inl (name_error ''time'') \<and>
   issued_by (create_public_ip (stub ip_never_found standard_sizes)) world0 =
     [(CreateOrUpdate (PublicIPAddress RESOURCE_GROUP_NAME IP_NAME)
         [(''location'', LOCATION), (''public_ip_allocation_method'', ''Dynamic'')], None),
      (Get (PublicIPAddress RESOURCE_GROUP_NAME IP_NAME), Some not_found)] \<and>
   fst (create_virtual_machine (stub vm_never_found standard_sizes) ''sub'' world0) =
     Inl (name_error ''time'') \<and>
   fst (setup_sql_database (stub sql_server_never_found standard_sizes) world0) =
     Inl (name_error ''time'')"
  by (simp only: ip_found_at_second_get_run ip_never_found_run vm_never_found_run
      sql_server_never_found_run simp_thms)

text \<open>
  C10. In create_public_ip, create_virtual_machine and setup_sql_database, from
  any world and whatever the provider answers: if a get of the resource that
  the function verifies is answered with not-found, the function raises the
  \<open>NameError\<close> of the unbound name \<open>time\<close>, that get is the last call it
  issues, and it is the only get of that resource.
\<close>

theorem verification_fails_at_first_not_found:
  "fails_at_first_not_found (PublicIPAddress RESOURCE_GROUP_NAME IP_NAME)
     (fst (create_public_ip p w)) (issued_by (create_public_ip p) w) \<and>
   fails_at_first_not_found (VirtualMachine RESOURCE_GROUP_NAME VM_NAME)
     (fst (create_virtual_machine p subscription_id w))
     (issued_by (create_virtual_machine p subscription_id) w) \<and>
   fails_at_first_not_found (SqlServer RESOURCE_GROUP_NAME (unique_name SQL_SERVER_NAME w))
     (fst (setup_sql_database p w)) (issued_by (setup_sql_database p) w)"
  by (intro conjI create_public_ip_verdict create_virtual_machine_verdict
      setup_sql_database_verdict)

theorem verification_fails_at_first_not_found_witness:
  "list_ex (not_found_reply (PublicIPAddress RESOURCE_GROUP_NAME IP_NAME))
     (issued_by (create_public_ip (stub ip_never_found standard_sizes)) world0) \<and>
   fst (create_public_ip (stub ip_never_found standard_sizes) world0) =
     Inl (name_error ''time'') \<and>
   list_ex (not_found_reply (VirtualMachine RESOURCE_GROUP_NAME VM_NAME))
     (issued_by (create_virtual_machine (stub vm_never_found standard_sizes) ''sub'') world0) \<and>
   fst (create_virtual_machine (stub vm_never_found standard_sizes) ''sub'' world0) =
     Inl (name_error ''time'') \<and>
   list_ex (not_found_reply (SqlServer RESOURCE_GROUP_NAME (unique_name SQL_SERVER_NAME world0)))
     (issued_by (setup_sql_database (stub sql_server_never_found standard_sizes)) world0) \<and>
   fst (setup_sql_database (stub sql_server_never_found standard_sizes) world0) =
     Inl (name_error ''time'')"
proof -
  have eq: "not_found_reply ent (without_params ev) = not_found_reply ent ev" for ent ev
    by (cases ev rule: without_params.cases) (simp_all add: not_found_reply_def)
  have ex: "list_ex (not_found_reply ent) (map without_params evs) =
      list_ex (not_found_reply ent) evs" for ent evs
    by (simp add: list_ex_iff eq)
  have ip: "list_ex (not_found_reply (PublicIPAddress RESOURCE_GROUP_NAME IP_NAME))
      (issued_by (create_public_ip (stub ip_never_found standard_sizes)) world0)"
    unfolding ip_never_found_run by (simp add: not_found_reply_def not_found_def)
  have "list_ex (not_found_reply (VirtualMachine RESOURCE_GROUP_NAME VM_NAME))
      (map without_params
        (issued_by (create_virtual_machine (stub vm_never_found standard_sizes) ''sub'') world0))"
    unfolding vm_never_found_run by (simp add: not_found_reply_def not_found_def)
  then have vm: "list_ex (not_found_reply (VirtualMachine RESOURCE_GROUP_NAME VM_NAME))
      (issued_by (create_virtual_machine (stub vm_never_found standard_sizes) ''sub'') world0)"
    by (simp only: ex)
  have "list_ex
      (not_found_reply (SqlServer RESOURCE_GROUP_NAME (unique_name SQL_SERVER_NAME world0)))
      (map without_params
        (issued_by (setup_sql_database (stub sql_server_never_found standard_sizes)) world0))"
    unfolding sql_server_never_found_run by (simp add: not_found_reply_def not_found_def)
  then have sql: "list_ex
      (not_found_reply (SqlServer RESOURCE_GROUP_NAME (unique_name SQL_SERVER_NAME world0)))
      (issued_by (setup_sql_database (stub sql_server_never_found standard_sizes)) world0)"
    by (simp only: ex)
  from verification_fails_at_first_not_found
      [of "stub ip_never_found standard_sizes" world0 "''sub''"]
    verification_fails_at_first_not_found
      [of "stub vm_never_found standard_sizes" world0 "''sub''"]
    verification_fails_at_first_not_found
      [of "stub sql_server_never_found standard_sizes" world0 "''sub''"]
    ip vm sql
  show ?thesis
    unfolding fails_at_first_not_found_def by blast
qed

subsection \<open>Choice of the size (C3)\<close>

text \<open>
  C3, as the script has it. When the provider lists the sizes,
  get_available_vm_size returns the preferred size when it is listed, the
  first listed size when the preferred one is not listed and the list is not
  empty, and \<open>None\<close>, without raising, when the list is empty. The failure is
  its caller's: when the list is empty at the time create_virtual_machine
  reads it, on a provider whose other calls succeed, create_virtual_machine
  raises an \<open>Exception\<close> with the message that no size is available, and the
  listing is the last call it issues.
\<close>

theorem get_available_vm_size_selects:
  "(list_sizes p (trace w) location = Inr sizes \<longrightarrow>
      (preferred_size \<in> set sizes \<longrightarrow>
         fst (get_available_vm_size p location preferred_size w) = Inr (Some preferred_size)) \<and>
      (preferred_size \<notin> set sizes \<and> sizes \<noteq> [] \<longrightarrow>
         fst (get_available_vm_size p location preferred_size w) = Inr (Some (hd sizes))) \<and>
      (sizes = [] \<longrightarrow>
         fst (get_available_vm_size p location preferred_size w) = Inr None)) \<and>
   (reliable q \<and> list_sizes q (trace (provisioned q v)) LOCATION = Inr [] \<longrightarrow>
      fst (create_virtual_machine q subscription_id v) =
        Inl (Exn Exception ''No available VM sizes found in the specified location.'') \<and>
      map without_params (issued_by (create_virtual_machine q subscription_id) v) =
        rg_calls (trace v) @ take 8 vm_sequence)"
proof (intro conjI impI)
  assume "list_sizes p (trace w) location = Inr sizes"
  note listed = get_available_vm_size_listed(1) [OF this, of preferred_size]
  show "fst (get_available_vm_size p location preferred_size w) = Inr (Some preferred_size)"
    if "preferred_size \<in> set sizes"
    using that listed by simp
  show "fst (get_available_vm_size p location preferred_size w) = Inr (Some (hd sizes))"
    if "preferred_size \<notin> set sizes \<and> sizes \<noteq> []"
    using that listed by (cases sizes) simp_all
  show "fst (get_available_vm_size p location preferred_size w) = Inr None"
    if "sizes = []"
    using that listed by simp
next
  assume q: "reliable q \<and> list_sizes q (trace (provisioned q v)) LOCATION = Inr []"
  then show "fst (create_virtual_machine q subscription_id v) =
      Inl (Exn Exception ''No available VM sizes found in the specified location.'')"
    by (simp add: create_virtual_machine_no_capacity(1))
  from q show "map without_params (issued_by (create_virtual_machine q subscription_id) v) =
      rg_calls (trace v) @ take 8 vm_sequence"
    by (simp add: create_virtual_machine_no_capacity(2))
qed

theorem get_available_vm_size_selects_witness:
  "fst (get_available_vm_size (stub no_failure standard_sizes) LOCATION ''Standard_B1s'' world0) =
     Inr (Some ''Standard_B1s'') \<and>
   fst (get_available_vm_size (stub no_failure other_sizes) LOCATION ''Standard_B1s'' world0) =
     Inr (Some ''Standard_D2a_v4'') \<and>
   fst (get_available_vm_size (stub no_failure []) LOCATION ''Standard_B1s'' world0) =
     Inr None \<and>
   fst (create_virtual_machine (stub no_failure []) ''sub'' world0) =
     Inl (Exn Exception ''No available VM sizes found in the specified location.'')"
proof -
  have sizes: "list_sizes (stub no_failure sizes) h LOCATION = Inr sizes" for sizes h
    by (simp add: stub_def)
  from get_available_vm_size_selects
      [of "stub no_failure standard_sizes" world0 LOCATION standard_sizes "''Standard_B1s''"
        "stub no_failure []" world0 "''sub''"]
    get_available_vm_size_selects
      [of "stub no_failure other_sizes" world0 LOCATION other_sizes "''Standard_B1s''"
        "stub no_failure []" world0 "''sub''"]
    get_available_vm_size_selects
      [of "stub no_failure []" world0 LOCATION "[]" "''Standard_B1s''"
        "stub no_failure []" world0 "''sub''"]
  show ?thesis
    by (simp add: sizes reliable_stub standard_sizes_def other_sizes_def)
qed

text \<open>
  C3 as the spec states it has get_available_vm_size fail on an empty list. On
  a provider that lists no size it returns \<open>None\<close>.
\<close>

theorem empty_size_list_counterexample:
  "list_sizes (stub no_failure []) (trace world0) LOCATION = Inr [] \<and>
   fst (get_available_vm_size (stub no_failure []) LOCATION ''Standard_B1s'' world0) = Inr None"
  by (simp add: get_available_vm_size_def prog_defs Let_def stub_defs)

subsection \<open>Subscription id (C4)\<close>

text \<open>
  C4 does not hold of the script. With the variable not set, or set to the
  empty string, the subscription id is the placeholder of line 28, the check of
  line 30 passes, and the script goes on to call the provider.
\<close>

theorem module_init_placeholder:
  "module_init None = Inr ''your_subscription_id'' \<and>
   module_init (Some []) = Inr ''your_subscription_id'' \<and>
   fst (script None (stub no_failure standard_sizes) world0) = Inr () \<and>
   length (trace (snd (script None (stub no_failure standard_sizes) world0))) = 17"
  by (simp add: script_def module_init_def py_or_def op_defs prog_defs Let_def stub_defs
      verify_loop_pos created_def is_create_of_def del: verify_loop.simps)

subsection \<open>Resource group (C5)\<close>

text \<open>
  C5. When the provider reports the resource group as existing,
  create_resource_group returns after that one check, with no create call.
  When the provider reports it as absent and the create call returns,
  create_resource_group issues the check and exactly one create call, and
  returns.
\<close>

theorem create_resource_group_calls:
  "(check_existence p (trace w) RESOURCE_GROUP_NAME = Inr True \<longrightarrow>
      fst (create_resource_group p w) = Inr () \<and>
      issued_by (create_resource_group p) w =
        [(CheckExistence (ResourceGroup RESOURCE_GROUP_NAME), None)]) \<and>
   (check_existence p (trace w) RESOURCE_GROUP_NAME = Inr False \<and>
    invoke p (trace w @ [(CheckExistence (ResourceGroup RESOURCE_GROUP_NAME), None)])
      (CreateOrUpdate (ResourceGroup RESOURCE_GROUP_NAME) [(''location'', LOCATION)]) = Inr res \<longrightarrow>
      fst (create_resource_group p w) = Inr () \<and>
      issued_by (create_resource_group p) w =
        [(CheckExistence (ResourceGroup RESOURCE_GROUP_NAME), None),
         (CreateOrUpdate (ResourceGroup RESOURCE_GROUP_NAME) [(''location'', LOCATION)], None)])"
  by (simp add: create_resource_group_def issued_by_def prog_defs Let_def)

theorem create_resource_group_calls_witness:
  "fst (create_resource_group (stub no_failure standard_sizes) world0) = Inr () \<and>
   issued_by (create_resource_group (stub no_failure standard_sizes)) world0 =
     [(CheckExistence (ResourceGroup RESOURCE_GROUP_NAME), None),
      (CreateOrUpdate (ResourceGroup RESOURCE_GROUP_NAME) [(''location'', LOCATION)], None)] \<and>
   fst (create_resource_group (stub no_failure standard_sizes)
          (snd (create_resource_group (stub no_failure standard_sizes) world0))) = Inr () \<and>
   issued_by (create_resource_group (stub no_failure standard_sizes))
          (snd (create_resource_group (stub no_failure standard_sizes) world0)) =
     [(CheckExistence (ResourceGroup RESOURCE_GROUP_NAME), None)]"
proof -
  let ?p = "stub no_failure standard_sizes"
  let ?w1 = "snd (create_resource_group ?p world0)"
  have absent: "check_existence ?p (trace world0) RESOURCE_GROUP_NAME = Inr False"
    and created: "invoke ?p
      (trace world0 @ [(CheckExistence (ResourceGroup RESOURCE_GROUP_NAME), None)])
      (CreateOrUpdate (ResourceGroup RESOURCE_GROUP_NAME) [(''location'', LOCATION)]) = Inr ''ok''"
    by (simp_all add: stub_defs created_def)
  have present: "check_existence ?p (trace ?w1) RESOURCE_GROUP_NAME = Inr True"
    by (simp add: create_resource_group_def prog_defs Let_def stub_defs created_def
        is_create_of_def)
  from create_resource_group_calls [of ?p world0 "''ok''"] absent created
    create_resource_group_calls [of ?p ?w1] present
  show ?thesis
    by simp
qed

subsection \<open>Lifecycle operations (C6)\<close>

text \<open>
  C6. When the provider's call raises in start_vm, stop_vm or delete_vm: if the
  exception is a not-found error, the function logs it as "VM not found" and
  returns; otherwise it logs the error and raises the same exception.
\<close>

theorem lifecycle_not_found_swallowed:
  "(invoke p (trace w) (Start (VirtualMachine RESOURCE_GROUP_NAME VM_NAME)) = Inl e \<longrightarrow>
      (if cls e = ResourceNotFoundError
       then fst (start_vm p w) = Inr () \<and>
            logfile (snd (start_vm p w)) = logfile w @
              [(INFO, ''Starting VM '' @ quoted VM_NAME @ ''...''),
               (ERROR, ''VM not found: '' @ message e)]
       else fst (start_vm p w) = Inl e \<and>
            logfile (snd (start_vm p w)) = logfile w @
              [(INFO, ''Starting VM '' @ quoted VM_NAME @ ''...''),
               (ERROR, ''Error starting VM: '' @ message e)])) \<and>
   (invoke p (trace w) (PowerOff (VirtualMachine RESOURCE_GROUP_NAME VM_NAME)) = Inl e \<longrightarrow>
      (if cls e = ResourceNotFoundError
       then fst (stop_vm p w) = Inr () \<and>
            logfile (snd (stop_vm p w)) = logfile w @
              [(INFO, ''Stopping VM '' @ quoted VM_NAME @ ''...''),
               (ERROR, ''VM not found: '' @ message e)]
       else fst (stop_vm p w) = Inl e \<and>
            logfile (snd (stop_vm p w)) = logfile w @
              [(INFO, ''Stopping VM '' @ quoted VM_NAME @ ''...''),
               (ERROR, ''Error stopping VM: '' @ message e)])) \<and>
   (invoke p (trace w) (Delete (VirtualMachine RESOURCE_GROUP_NAME VM_NAME)) = Inl e \<longrightarrow>
      (if cls e = ResourceNotFoundError
       then fst (delete_vm p w) = Inr () \<and>
            logfile (snd (delete_vm p w)) = logfile w @
              [(INFO, ''Deleting VM '' @ quoted VM_NAME @ ''...''),
               (ERROR, ''VM not found: '' @ message e)]
       else fst (delete_vm p w) = Inl e \<and>
            logfile (snd (delete_vm p w)) = logfile w @
              [(INFO, ''Deleting VM '' @ quoted VM_NAME @ ''...''),
               (ERROR, ''Error deleting VM: '' @ message e)]))"
  by (simp add: start_vm_def stop_vm_def delete_vm_def prog_defs Let_def)

theorem lifecycle_not_found_swallowed_witness:
  "fst (start_vm (stub vm_missing standard_sizes) world0) = Inr () \<and>
   fst (stop_vm (stub vm_missing standard_sizes) world0) = Inr () \<and>
   fst (delete_vm (stub vm_missing standard_sizes) world0) = Inr () \<and>
   logfile (snd (delete_vm (stub vm_missing standard_sizes) world0)) =
     [(INFO, ''Deleting VM '' @ quoted VM_NAME @ ''...''),
      (ERROR, ''VM not found: '' @ message not_found)] \<and>
   fst (start_vm (stub vm_forbidden standard_sizes) world0) = Inl forbidden \<and>
   fst (stop_vm (stub vm_forbidden standard_sizes) world0) = Inl forbidden \<and>
   fst (delete_vm (stub vm_forbidden standard_sizes) world0) = Inl forbidden"
  using lifecycle_not_found_swallowed [of "stub vm_missing standard_sizes" world0 not_found]
    lifecycle_not_found_swallowed [of "stub vm_forbidden standard_sizes" world0 forbidden]
  by (simp add: stub_def world0_def init_world_def not_found_def forbidden_def)

subsection \<open>Storage account (C7)\<close>

text \<open>
  C7. When the create call of the storage account raises,
  configure_storage_account raises the same exception after that one call,
  under the one name it generated: nothing is renamed or retried. An
  exists-error is logged as "Storage account name already taken", any other
  exception under the general message.
\<close>

theorem storage_name_taken_reraised:
  "invoke p (trace w)
     (CreateOrUpdate (StorageAccount RESOURCE_GROUP_NAME (unique_name STORAGE_ACCOUNT_NAME w))
        [(''sku.name'', ''Standard_LRS''), (''kind'', ''StorageV2''), (''location'', LOCATION)])
     = Inl e \<longrightarrow>
   fst (configure_storage_account p w) = Inl e \<and>
   issued_by (configure_storage_account p) w =
     [(CreateOrUpdate (StorageAccount RESOURCE_GROUP_NAME (unique_name STORAGE_ACCOUNT_NAME w))
         [(''sku.name'', ''Standard_LRS''), (''kind'', ''StorageV2''), (''location'', LOCATION)],
       Some e)] \<and>
   logfile (snd (configure_storage_account p w)) = logfile w @
     [(INFO, ''Configuring storage account...''),
      (INFO, ''Generated unique storage account name: '' @ unique_name STORAGE_ACCOUNT_NAME w),
      (ERROR, (if cls e = ResourceExistsError then ''Storage account name already taken: ''
               else ''Error configuring storage account: '') @ message e)]"
  by (simp add: configure_storage_account_def generate_unique_name_eq issued_by_def prog_defs
      Let_def)

theorem storage_name_taken_reraised_witness:
  "fst (configure_storage_account (stub name_taken standard_sizes) world0) = Inl conflict \<and>
   last (logfile (snd (configure_storage_account (stub name_taken standard_sizes) world0))) =
     (ERROR, ''Storage account name already taken: '' @ message conflict) \<and>
   fst (configure_storage_account (stub storage_forbidden standard_sizes) world0) =
     Inl forbidden \<and>
   last (logfile (snd (configure_storage_account (stub storage_forbidden standard_sizes) world0))) =
     (ERROR, ''Error configuring storage account: '' @ message forbidden)"
  using storage_name_taken_reraised [of "stub name_taken standard_sizes" world0 conflict]
    storage_name_taken_reraised [of "stub storage_forbidden standard_sizes" world0 forbidden]
  by (simp add: stub_def world0_def init_world_def conflict_def forbidden_def)

subsection \<open>The sequence of calls (C8)\<close>

text \<open>
  C8, as the script has it. Run from a fresh world on a provider on which every
  call succeeds, which reports the resource group as absent until it is
  created and lists a first size with a name, the script's main block returns
  and has issued exactly these calls, all answered with success: the check of
  the resource group, its creation, the check again (in
  create_virtual_machine), the creation of the virtual network, of the subnet
  and of the public IP address, a get of the public IP address, a get of the
  subnet and of the public IP address, the creation of the network interface,
  the listing of the sizes, the creation of the virtual machine, a get of it,
  the creation of the SQL server, a get of it, the creation of the database,
  and the creation of the storage account.
\<close>

theorem main_call_sequence:
  assumes p: "cooperative p"
  shows "fst (main p subscription_id (init_world r)) = Inr () \<and>
     map without_params (trace (snd (main p subscription_id (init_world r)))) =
       actual_sequence
         (unique_name SQL_SERVER_NAME (init_world r))
         (unique_name STORAGE_ACCOUNT_NAME
            (snd (generate_unique_name SQL_SERVER_NAME (init_world r))))"
proof -
  note rel = cooperative_reliable [OF p]
  let ?rg = "ResourceGroup RESOURCE_GROUP_NAME"
  let ?w0 = "init_world r"
  let ?w1 = "snd (create_resource_group p ?w0)"
  let ?w2 = "snd (create_virtual_machine p subscription_id ?w1)"
  let ?w3 = "snd (setup_sql_database p ?w2)"
  have 1: "\<not> isl (fst (create_resource_group p ?w0))" "rng ?w1 = r"
    "map without_params (trace ?w1) = [(CheckExistence ?rg, None), (CreateOrUpdate ?rg [], None)]"
    using happy_create_resource_group [OF rel, of ?w0]
    by (simp_all add: happy_def rg_calls_def init_world_def created_def)
  have "created ?rg (map without_params (trace ?w1))"
    unfolding 1 by (simp add: created_def is_create_of_def)
  then have rg: "created ?rg (trace ?w1)"
    by (simp only: created_without_params)
  have 2: "\<not> isl (fst (create_virtual_machine p subscription_id ?w1))" "rng ?w2 = r"
    "map without_params (trace ?w2) =
       [(CheckExistence ?rg, None), (CreateOrUpdate ?rg [], None), (CheckExistence ?rg, None)]
       @ vm_sequence"
    using create_virtual_machine_cooperative [OF p, of subscription_id ?w1] rg 1
    by (simp_all add: happy_def rg_calls_def)
  have names: "unique_name base ?w2 = unique_name base ?w0"
    "unique_name base ?w3 = unique_name base (snd (generate_unique_name SQL_SERVER_NAME ?w0))"
    for base
    using setup_sql_database_reliable(2) [OF rel, of ?w2] 2(2)
    by (simp_all add: unique_name_def generate_unique_name_eq init_world_def)
  have 3: "\<not> isl (fst (setup_sql_database p ?w2))"
    "map without_params (trace ?w3) =
       [(CheckExistence ?rg, None), (CreateOrUpdate ?rg [], None), (CheckExistence ?rg, None)]
       @ vm_sequence @
       [(CreateOrUpdate (SqlServer RESOURCE_GROUP_NAME (unique_name SQL_SERVER_NAME ?w0)) [],
         None),
        (Get (SqlServer RESOURCE_GROUP_NAME (unique_name SQL_SERVER_NAME ?w0)), None),
        (CreateOrUpdate
           (SqlDatabase RESOURCE_GROUP_NAME (unique_name SQL_SERVER_NAME ?w0) SQL_DB_NAME) [],
         None)]"
    using setup_sql_database_reliable [OF rel, of ?w2] 2
    by (simp_all add: names)
  have run: "main p subscription_id ?w0 = configure_storage_account p ?w3"
    unfolding main_def by (simp only: then_prog_step 1 2 3 simp_thms)
  show ?thesis
    unfolding run using configure_storage_account_reliable [OF rel, of ?w3] 3
    by (simp add: actual_sequence_def names)
qed

theorem main_call_sequence_witness:
  "cooperative (stub no_failure standard_sizes) \<and>
   fst (main (stub no_failure standard_sizes) ''sub'' (init_world zero_draws)) = Inr () \<and>
   length (trace (snd (main (stub no_failure standard_sizes) ''sub'' (init_world zero_draws)))) = 17"
proof -
  from main_call_sequence [OF cooperative_stub, of "''sub''" zero_draws]
  have "fst (main (stub no_failure standard_sizes) ''sub'' (init_world zero_draws)) = Inr ()"
    and "length (map without_params
      (trace (snd (main (stub no_failure standard_sizes) ''sub'' (init_world zero_draws))))) = 17"
    by (simp_all add: actual_sequence_def vm_sequence_def)
  with cooperative_stub show ?thesis
    by simp
qed

text \<open>
  C8 as the spec states it names nine calls. On a provider that never fails
  neither the script's main block nor create_virtual_machine alone issues that
  sequence.
\<close>

theorem main_call_sequence_counterexample:
  "map without_params (issued_by (main (stub no_failure standard_sizes) ''sub'') world0)
     \<noteq> claimed_sequence \<and>
   map without_params
     (issued_by (create_virtual_machine (stub no_failure standard_sizes) ''sub'') world0)
     \<noteq> claimed_sequence"
  by (simp add: issued_by_def claimed_sequence_def op_defs prog_defs Let_def stub_defs
      verify_loop_pos created_def is_create_of_def del: verify_loop.simps)

subsection \<open>Generated names (C9)\<close>

text \<open>
  C9. The generated name is the base name followed by six characters, each a
  lowercase letter or a digit. Nothing makes two names differ: there is a
  generator on which two calls in a row return the same name.
\<close>

theorem generate_unique_name_shape:
  "(\<exists>suffix. fst (generate_unique_name base_name w) = Inr (base_name @ suffix) \<and>
      length suffix = 6 \<and> set suffix \<subseteq> set (ascii_lowercase @ digits)) \<and>
   (\<exists>w0. fst (generate_unique_name base_name (snd (generate_unique_name base_name w0))) =
      fst (generate_unique_name base_name w0))"
proof
  have len: "length (ascii_lowercase @ digits) = 36"
    by (simp add: ascii_lowercase_def digits_def)
  have "set (random_choices (ascii_lowercase @ digits) 6 (rng w)) \<subseteq> set (ascii_lowercase @ digits)"
    unfolding random_choices_def using len by (auto simp del: set_append)
  then show "\<exists>suffix. fst (generate_unique_name base_name w) = Inr (base_name @ suffix) \<and>
      length suffix = 6 \<and> set suffix \<subseteq> set (ascii_lowercase @ digits)"
    by (simp add: generate_unique_name_def Let_def random_choices_def)
next
  have "fst (generate_unique_name base_name (snd (generate_unique_name base_name world0))) =
      fst (generate_unique_name base_name world0)"
    by (simp add: generate_unique_name_def Let_def random_choices_def world0_def init_world_def
        zero_draws_def)
  then show "\<exists>w0. fst (generate_unique_name base_name (snd (generate_unique_name base_name w0))) =
      fst (generate_unique_name base_name w0)" ..
qed

theorem generate_unique_name_shape_witness:
  "\<exists>suffix. fst (generate_unique_name SQL_SERVER_NAME world0) = Inr (SQL_SERVER_NAME @ suffix) \<and>
     length suffix = 6 \<and> set suffix \<subseteq> set (ascii_lowercase @ digits)"
  using generate_unique_name_shape [of SQL_SERVER_NAME world0] by blast

end
